theory Spec2Isabelle
  imports Complex_Main
begin

section \<open>The gaze estimation node (estimate\_gaze.py)\<close>

text \<open>
  The theory embeds \<^verbatim>\<open>GazeEstimatorROS\<close> of \<^verbatim>\<open>rt_gene/scripts/estimate_gaze.py\<close>:
  the per-subject method \<^verbatim>\<open>compute_eye_gaze_estimation\<close>, the callback
  \<^verbatim>\<open>image_callback\<close> and the buffers they keep in \<^verbatim>\<open>self.gaze_buffer_c\<close>.

  Conventions of the embedding.
  \<^item> A \<^verbatim>\<open>rospy.Time\<close> and the \<^verbatim>\<open>Duration\<close> between two of them hold integer
    seconds and nanoseconds; the model keeps the total number of nanoseconds as an
    \<open>int\<close>, and \<^verbatim>\<open>to_sec()\<close> divides by \<open>10^9\<close>.
  \<^item> Floating-point numbers are modelled by exact reals: rounding is not part of the
    model. The threshold 0.25 is a binary fraction, so the comparison of line 69 is the
    same on floats and on reals for a duration of whole nanoseconds.
  \<^item> Images (numpy arrays) are values of a type parameter \<open>'a\<close>.
  \<^item> The methods inherited from \<^verbatim>\<open>GazeEstimatorBase\<close> and the helpers of
    \<^verbatim>\<open>gaze_tools\<close> are not part of this file of the repository: they are parameters
    of the model (record \<open>externals\<close>) and are taken to return normally. So is the
    publication of the image, the last statement of the callback.
  \<^item> What the transform service and the clock answer during one call of
    \<^verbatim>\<open>compute_eye_gaze_estimation\<close> is a parameter too (record \<open>call_env\<close>). The calls
    of \<^verbatim>\<open>tf\<close> and the publication of the transform either return or raise one of the
    exceptions that the method catches; these exceptions are values of the model.
  \<^item> An exception that the method does not catch leaves it, and leaves the callback:
    the \<^verbatim>\<open>KeyError\<close> of a missing buffer and the \<^verbatim>\<open>ZeroDivisionError\<close> of the frame rate
    of line 89, which divides by the time since \<^verbatim>\<open>self.time_last\<close>.
  \<^item> Calls of external collaborators, the appends to the buffers and diagnostic output
    are collected, in the order in which they happen, in a list of events. A diagnostic
    is recorded with the values it prints; the layout of its text is not modelled.
\<close>

subsection \<open>Data\<close>

type_synonym time = int

definition to_sec :: "int \<Rightarrow> real" where
  "to_sec d = real_of_int d / 1000000000"

type_synonym gaze = "real \<times> real"

type_synonym quaternion = "real \<times> real \<times> real \<times> real"

type_synonym vec3 = "real \<times> real \<times> real"

datatype tf_error = LookupException | ConnectivityException | ExtrapolationException | TfException

text \<open>The exceptions that the calls of \<^verbatim>\<open>tf\<close> and \<^verbatim>\<open>rospy\<close> raise.\<close>

datatype exn = TfError tf_error | ROSException string

text \<open>A method either returns a value or leaves with an exception that it does not catch:
  the \<^verbatim>\<open>KeyError\<close> of \<^verbatim>\<open>self.gaze_buffer_c[subject_id]\<close> for a missing key, and the
  \<^verbatim>\<open>ZeroDivisionError\<close> of \<^verbatim>\<open>1. / x\<close> for a float \<open>x\<close> that is zero.\<close>

datatype uncaught = KeyError nat | ZeroDivisionError

datatype 'r outcome = Return 'r | Raise uncaught

text \<open>\<^verbatim>\<open>collections.deque(maxlen=n)\<close>: the elements from the oldest (left) to the newest (right).\<close>

record 'e deque =
  maxlen :: nat
  items :: "'e list"

definition new_deque :: "nat \<Rightarrow> 'e deque" where
  "new_deque n = \<lparr>maxlen = n, items = []\<rparr>"

text \<open>\<^verbatim>\<open>append\<close> adds on the right and, once the length passes \<^verbatim>\<open>maxlen\<close>, drops one
  element on the left.\<close>

definition deque_append :: "'e deque \<Rightarrow> 'e \<Rightarrow> 'e deque" where
  "deque_append d x =
     (let ys = items d @ [x]
      in d\<lparr>items := (if maxlen d < length ys then tl ys else ys)\<rparr>)"

text \<open>The result of \<^verbatim>\<open>np.concatenate((a, b), axis=k)\<close> is kept symbolic.\<close>

datatype 'a image = Img 'a | Concatenate "'a image" "'a image" nat

record 'a subject =
  left :: 'a
  right :: 'a

text \<open>The message of the callback: \<^verbatim>\<open>header.stamp\<close> and the items of the dictionary that
  \<^verbatim>\<open>msg_to_images\<close> returns, in the order of iteration.\<close>

record 'a subject_image_list =
  stamp :: time
  subjects :: "(nat \<times> 'a subject) list"

record 'a externals =
  input_from_image :: "'a \<Rightarrow> 'a"
  limit_yaw :: "quaternion \<Rightarrow> vec3"
  get_phi_theta_from_euler :: "vec3 \<Rightarrow> real \<times> real"
  estimate_gaze_twoeyes :: "'a \<Rightarrow> 'a \<Rightarrow> real \<times> real \<Rightarrow> gaze"
  visualize_eye_result :: "'a \<Rightarrow> gaze \<Rightarrow> 'a"

text \<open>
  The answers of the outside world during one call of \<^verbatim>\<open>compute_eye_gaze_estimation\<close>:
  what \<^verbatim>\<open>getLatestCommonTime\<close> and \<^verbatim>\<open>lookupTransform\<close> return or raise, the exception
  that \<^verbatim>\<open>sendTransform\<close> raises inside \<^verbatim>\<open>publish_gaze\<close> (\<open>None\<close> when it returns), and
  the values of the three calls of \<^verbatim>\<open>rospy.Time.now()\<close>, on lines 88, 89 and 90.
\<close>

record call_env =
  getLatestCommonTime :: "tf_error + time"
  lookupTransform :: "tf_error + vec3 \<times> quaternion"
  sendTransform :: "exn option"
  now_line88 :: time
  now_line89 :: time
  now_line90 :: time

text \<open>
  The events, with the arguments of the calls they stand for:
  \<^verbatim>\<open>lookupTransform\<close> for a subject at a time; the \<^verbatim>\<open>print\<close> of the Euler angles; the
  diagnostic of a too big time difference, in seconds; the call
  \<^verbatim>\<open>estimate_gaze_twoeyes(a, b, c)\<close> with its three arguments in order; the append of
  an estimate to the buffer of a subject (line 83); the call
  \<^verbatim>\<open>publish_gaze(est_gaze, msg_stamp, subject_id)\<close>, whether or not the
  \<^verbatim>\<open>sendTransform\<close> in it raises; the diagnostic of an emitted estimate, with the frame
  rate and the latency it prints; the \<^verbatim>\<open>print\<close> of a \<^verbatim>\<open>tf\<close> exception; the \<^verbatim>\<open>print\<close> of
  the farewell; the publication of the image of the frame.
\<close>

datatype 'a event =
    LookupTransform nat time
  | PrintEulerAngles vec3
  | WriteTooBigTimeDiff real
  | EstimateGazeTwoEyes 'a 'a "real \<times> real"
  | BufferAppend nat gaze
  | PublishGaze gaze time nat
  | WriteEstGaze gaze real real
  | PrintTfError tf_error
  | PrintSeeYa
  | PublishGazeImage "'a image"

text \<open>The fields of \<^verbatim>\<open>self\<close> that the callback changes.\<close>

record state =
  gaze_buffer_c :: "nat \<rightharpoonup> gaze deque"
  time_last :: time

definition init_state :: "time \<Rightarrow> state" where
  "init_state now = \<lparr>gaze_buffer_c = Map.empty, time_last = now\<rparr>"

definition average_weights :: "real list" where
  "average_weights = [0.1, 0.125, 0.175, 0.2, 0.4]"

subsection \<open>Operations\<close>

text \<open>
  \<^verbatim>\<open>np.average(a, axis=0, weights=w)\<close> on an array of shape \<open>(n, 2)\<close> and \<open>n\<close> weights:
  \<^verbatim>\<open>np.multiply(a, w).sum(axis=0) / w.sum()\<close>. numpy raises when the lengths differ or
  the weights sum to zero; the only call is guarded by the comparison of the two lengths,
  and the weights sum to one (lemma \<open>sum_average_weights\<close>).
\<close>

definition np_average :: "gaze list \<Rightarrow> real list \<Rightarrow> gaze" where
  "np_average a weights =
     (let scl = sum_list weights
      in (sum_list (map2 (\<lambda>e w. fst e * w) a weights) / scl,
          sum_list (map2 (\<lambda>e w. snd e * w) a weights) / scl))"

text \<open>The two \<^verbatim>\<open>except\<close> clauses of \<^verbatim>\<open>compute_eye_gaze_estimation\<close>, followed by
  \<^verbatim>\<open>return None\<close>.\<close>

definition excepts ::
  "exn \<Rightarrow> state \<Rightarrow> 'a event list \<Rightarrow> gaze option outcome \<times> state \<times> 'a event list" where
  "excepts e self evs =
     (case e of
        TfError tf_e \<Rightarrow> (Return None, self, evs @ [PrintTfError tf_e])
      | ROSException ros_e \<Rightarrow>
          (Return None, self,
           if ros_e = ''publish() to a closed topic'' then evs @ [PrintSeeYa] else evs))"

definition compute_eye_gaze_estimation ::
  "'a externals \<Rightarrow> call_env \<Rightarrow> nat \<Rightarrow> time \<Rightarrow> 'a \<Rightarrow> 'a \<Rightarrow> state
     \<Rightarrow> gaze option outcome \<times> state \<times> 'a event list" where
  "compute_eye_gaze_estimation X env subject_id timestamp input_r input_l self =
     (case getLatestCommonTime env of
        Inl tf_e \<Rightarrow> excepts (TfError tf_e) self []
      | Inr lct \<Rightarrow>
          if to_sec (timestamp - lct) < 0.25 then
            (case lookupTransform env of
               Inl tf_e \<Rightarrow> excepts (TfError tf_e) self [LookupTransform subject_id lct]
             | Inr (trans_head, rot_head) \<Rightarrow>
                 let euler_angles_head = limit_yaw X rot_head;
                     (phi_head, theta_head) = get_phi_theta_from_euler X euler_angles_head;
                     est_gaze_c = estimate_gaze_twoeyes X input_l input_r (theta_head, phi_head);
                     evs = [LookupTransform subject_id lct, PrintEulerAngles euler_angles_head,
                            EstimateGazeTwoEyes input_l input_r (theta_head, phi_head)]
                 in (case gaze_buffer_c self subject_id of
                       None \<Rightarrow> (Raise (KeyError subject_id), self, evs)
                     | Some buf \<Rightarrow>
                         let buf' = deque_append buf est_gaze_c;
                             self' = self\<lparr>gaze_buffer_c := (gaze_buffer_c self)(subject_id \<mapsto> buf')\<rparr>;
                             evs' = evs @ [BufferAppend subject_id est_gaze_c]
                         in if length average_weights = length (items buf') then
                              let est_gaze_c_med = np_average (items buf') average_weights
                              in (case sendTransform env of
                                    Some e \<Rightarrow>
                                      excepts e self'
                                        (evs' @ [PublishGaze est_gaze_c_med timestamp subject_id])
                                  | None \<Rightarrow>
                                      let time_total = to_sec (now_line88 env - timestamp)
                                      in if to_sec (now_line89 env - time_last self) = 0
                                         then (Raise ZeroDivisionError, self',
                                               evs' @ [PublishGaze est_gaze_c_med timestamp
                                                         subject_id])
                                         else
                                           (Return (Some est_gaze_c_med),
                                            self'\<lparr>time_last := now_line90 env\<rparr>,
                                            evs' @ [PublishGaze est_gaze_c_med timestamp subject_id,
                                                    WriteEstGaze est_gaze_c_med
                                                      (1 / to_sec (now_line89 env - time_last self))
                                                      time_total]))
                            else (Return None, self', evs')))
          else (Return None, self, [WriteTooBigTimeDiff (to_sec (timestamp - lct))]))"

text \<open>The loop of \<^verbatim>\<open>image_callback\<close> over the items of the dictionary; \<open>world\<close> gives
  the answers of the outside world during the call made for each subject.\<close>

fun image_callback_loop ::
  "'a externals \<Rightarrow> (nat \<Rightarrow> call_env) \<Rightarrow> time \<Rightarrow> (nat \<times> 'a subject) list \<Rightarrow> state
     \<Rightarrow> 'a image option \<Rightarrow> 'a image option outcome \<times> state \<times> 'a event list" where
  "image_callback_loop X world timestamp [] self subjects_gaze_img =
     (Return subjects_gaze_img, self, [])"
| "image_callback_loop X world timestamp ((subject_id, s) # rest) self subjects_gaze_img =
     (let self1 = (if gaze_buffer_c self subject_id = None
                   then self\<lparr>gaze_buffer_c := (gaze_buffer_c self)(subject_id \<mapsto> new_deque 5)\<rparr>
                   else self);
          input_r = input_from_image X (right s);
          input_l = input_from_image X (left s)
      in (case compute_eye_gaze_estimation X (world subject_id) subject_id timestamp
                 input_r input_l self1 of
            (Raise e, self2, evs) \<Rightarrow> (Raise e, self2, evs)
          | (Return gaze_est, self2, evs) \<Rightarrow>
              let img =
                (case gaze_est of
                   None \<Rightarrow> subjects_gaze_img
                 | Some g \<Rightarrow>
                     let r_gaze_img = visualize_eye_result X (right s) g;
                         l_gaze_img = visualize_eye_result X (left s) g;
                         s_gaze_img = Concatenate (Img r_gaze_img) (Img l_gaze_img) 1
                     in (case subjects_gaze_img of
                           None \<Rightarrow> Some s_gaze_img
                         | Some i \<Rightarrow> Some (Concatenate i s_gaze_img 0)))
              in (case image_callback_loop X world timestamp rest self2 img of
                    (out, self3, evs') \<Rightarrow> (out, self3, evs @ evs'))))"

definition image_callback ::
  "'a externals \<Rightarrow> (nat \<Rightarrow> call_env) \<Rightarrow> 'a subject_image_list \<Rightarrow> state
     \<Rightarrow> unit outcome \<times> state \<times> 'a event list" where
  "image_callback X world subject_image_list self =
     (let timestamp = stamp subject_image_list;
          subjects_dict = subjects subject_image_list
      in (case image_callback_loop X world timestamp subjects_dict self None of
            (Raise e, self', evs) \<Rightarrow> (Raise e, self', evs)
          | (Return None, self', evs) \<Rightarrow> (Return (), self', evs)
          | (Return (Some subjects_gaze_img), self', evs) \<Rightarrow>
              (Return (), self', evs @ [PublishGazeImage subjects_gaze_img])))"

text \<open>\<^verbatim>\<open>rospy.spin()\<close>: the callback runs once for each message delivered, one message
  after the other, on the state the previous callback left, also when that callback
  left with an exception.\<close>

fun spin ::
  "'a externals \<Rightarrow> ((nat \<Rightarrow> call_env) \<times> 'a subject_image_list) list \<Rightarrow> state
     \<Rightarrow> state \<times> 'a event list" where
  "spin X [] self = (self, [])"
| "spin X ((world, msg) # rest) self =
     (case image_callback X world msg self of
        (out, self', evs) \<Rightarrow>
          (case spin X rest self' of (self'', evs') \<Rightarrow> (self'', evs @ evs')))"

subsection \<open>Vocabulary of the properties\<close>

text \<open>
  The subject is skipped by a call: the lookup of the latest common time raises, or the
  pose is too old, or the lookup of the transform raises.
\<close>

definition skipped :: "call_env \<Rightarrow> time \<Rightarrow> bool" where
  "skipped env timestamp =
     (case getLatestCommonTime env of
        Inl tf_e \<Rightarrow> True
      | Inr lct \<Rightarrow>
          if to_sec (timestamp - lct) < 0.25
          then (case lookupTransform env of Inl tf_e \<Rightarrow> True | Inr tr \<Rightarrow> False)
          else True)"

text \<open>The array \<^verbatim>\<open>[theta_head, phi_head]\<close> that a call which is not skipped computes from
  the transform, and the estimate it obtains for two inputs.\<close>

definition head_theta_phi :: "'a externals \<Rightarrow> call_env \<Rightarrow> real \<times> real" where
  "head_theta_phi X env =
     (case lookupTransform env of
        Inl tf_e \<Rightarrow> (0, 0)
      | Inr (trans_head, rot_head) \<Rightarrow>
          (case get_phi_theta_from_euler X (limit_yaw X rot_head) of
             (phi_head, theta_head) \<Rightarrow> (theta_head, phi_head)))"

definition raw_estimate :: "'a externals \<Rightarrow> call_env \<Rightarrow> 'a subject \<Rightarrow> gaze" where
  "raw_estimate X env s =
     estimate_gaze_twoeyes X (input_from_image X (left s)) (input_from_image X (right s))
       (head_theta_phi X env)"

text \<open>The contents of the buffer of a subject, empty while the subject has none.\<close>

definition buffer_of :: "state \<Rightarrow> nat \<Rightarrow> gaze list" where
  "buffer_of self subject_id =
     (case gaze_buffer_c self subject_id of None \<Rightarrow> [] | Some buf \<Rightarrow> items buf)"

text \<open>Every buffer has the capacity that \<^verbatim>\<open>image_callback\<close> gives it, and no more samples
  than that.\<close>

definition buffers_bounded :: "state \<Rightarrow> bool" where
  "buffers_bounded self =
     (\<forall>k buf. gaze_buffer_c self k = Some buf \<longrightarrow> maxlen buf = 5 \<and> length (items buf) \<le> 5)"

text \<open>The weighted average of five samples, written out.\<close>

definition weighted_average5 :: "gaze \<Rightarrow> gaze \<Rightarrow> gaze \<Rightarrow> gaze \<Rightarrow> gaze \<Rightarrow> gaze" where
  "weighted_average5 e0 e1 e2 e3 e4 =
     ((0.1 * fst e0 + 0.125 * fst e1 + 0.175 * fst e2 + 0.2 * fst e3 + 0.4 * fst e4)
        / (0.1 + 0.125 + 0.175 + 0.2 + 0.4),
      (0.1 * snd e0 + 0.125 * snd e1 + 0.175 * snd e2 + 0.2 * snd e3 + 0.4 * snd e4)
        / (0.1 + 0.125 + 0.175 + 0.2 + 0.4))"

text \<open>The estimates handed to \<^verbatim>\<open>publish_gaze\<close> for a subject, in the order of the
  events.\<close>

fun emissions :: "nat \<Rightarrow> 'a event list \<Rightarrow> gaze list" where
  "emissions sid [] = []"
| "emissions sid (PublishGaze g t k # evs) =
     (if k = sid then g # emissions sid evs else emissions sid evs)"
| "emissions sid (ev # evs) = emissions sid evs"

text \<open>The raw estimates appended to the buffer of a subject, in the order of the events.\<close>

fun pushes :: "nat \<Rightarrow> 'a event list \<Rightarrow> gaze list" where
  "pushes sid [] = []"
| "pushes sid (BufferAppend k e # evs) =
     (if k = sid then e # pushes sid evs else pushes sid evs)"
| "pushes sid (ev # evs) = pushes sid evs"

text \<open>The buffer that a call finds for a subject: the one of the registry, or the new one
  that \<^verbatim>\<open>image_callback\<close> creates.\<close>

definition buffer_or_new :: "state \<Rightarrow> nat \<Rightarrow> gaze deque" where
  "buffer_or_new self sid =
     (case gaze_buffer_c self sid of None \<Rightarrow> new_deque 5 | Some buf \<Rightarrow> buf)"

text \<open>The averages that a sequence of pushes into one buffer yields, used in the proofs.\<close>

fun sliding :: "gaze deque \<Rightarrow> gaze list \<Rightarrow> gaze list" where
  "sliding d [] = []"
| "sliding d (e # es) =
     (if length (items (deque_append d e)) = 5
      then np_average (items (deque_append d e)) average_weights # sliding (deque_append d e) es
      else sliding (deque_append d e) es)"

text \<open>The two blocks of the body of the loop, named for the proofs: the creation of the
  buffer of a subject seen for the first time, and the composition of the image.\<close>

definition ensure_buffer :: "state \<Rightarrow> nat \<Rightarrow> state" where
  "ensure_buffer self subject_id =
     (if gaze_buffer_c self subject_id = None
      then self\<lparr>gaze_buffer_c := (gaze_buffer_c self)(subject_id \<mapsto> new_deque 5)\<rparr>
      else self)"

definition add_gaze_img :: "'a externals \<Rightarrow> 'a subject \<Rightarrow> gaze option \<Rightarrow> 'a image option \<Rightarrow> 'a image option" where
  "add_gaze_img X s gaze_est subjects_gaze_img =
     (case gaze_est of
        None \<Rightarrow> subjects_gaze_img
      | Some g \<Rightarrow>
          (case subjects_gaze_img of
             None \<Rightarrow> Some (Concatenate (Img (visualize_eye_result X (right s) g))
                             (Img (visualize_eye_result X (left s) g)) 1)
           | Some i \<Rightarrow> Some (Concatenate i (Concatenate (Img (visualize_eye_result X (right s) g))
                             (Img (visualize_eye_result X (left s) g)) 1) 0)))"

subsection \<open>Concrete values for the witnesses\<close>

definition example_X :: "nat externals" where
  "example_X =
     \<lparr>input_from_image = (\<lambda>i. i), limit_yaw = (\<lambda>q. (0, 0, 0)),
      get_phi_theta_from_euler = (\<lambda>e. (1, 2)),
      estimate_gaze_twoeyes = (\<lambda>l r h. (real l, real r)),
      visualize_eye_result = (\<lambda>i g. i)\<rparr>"

text \<open>A pose seen at \<open>lct\<close>, a transform that is found, and a clock that shows one
  second at each reading.\<close>

definition example_env :: "time \<Rightarrow> exn option \<Rightarrow> call_env" where
  "example_env lct e =
     \<lparr>getLatestCommonTime = Inr lct, lookupTransform = Inr ((0, 0, 0), (0, 0, 0, 1)),
      sendTransform = e, now_line88 = 1000000000, now_line89 = 1000000000,
      now_line90 = 1000000000\<rparr>"

definition example_state :: "gaze list \<Rightarrow> state" where
  "example_state xs = \<lparr>gaze_buffer_c = [1 \<mapsto> \<lparr>maxlen = 5, items = xs\<rparr>], time_last = 0\<rparr>"

definition example_subject :: "nat subject" where
  "example_subject = \<lparr>left = 10, right = 20\<rparr>"

definition example_msg :: "time \<Rightarrow> nat subject_image_list" where
  "example_msg t = \<lparr>stamp = t, subjects = [(1, example_subject)]\<rparr>"

text \<open>Frame \<open>n\<close> of a run: stamped at \<open>n\<close> seconds, with a pose of that time, and
  processed while the clock shows \<open>n + 1\<close> seconds. The stale frame comes between the
  frames 0 and 1, with a pose that is 0.3 s old.\<close>

definition example_frame :: "nat \<Rightarrow> (nat \<Rightarrow> call_env) \<times> nat subject_image_list" where
  "example_frame n =
     (\<lambda>k. \<lparr>getLatestCommonTime = Inr (int n * 1000000000),
            lookupTransform = Inr ((0, 0, 0), (0, 0, 0, 1)), sendTransform = None,
            now_line88 = (int n + 1) * 1000000000, now_line89 = (int n + 1) * 1000000000,
            now_line90 = (int n + 1) * 1000000000\<rparr>,
      \<lparr>stamp = int n * 1000000000, subjects = [(1, \<lparr>left = n, right = n + 1\<rparr>)]\<rparr>)"

definition example_stale_frame :: "(nat \<Rightarrow> call_env) \<times> nat subject_image_list" where
  "example_stale_frame =
     (\<lambda>k. example_env 0 None, \<lparr>stamp = 300000000, subjects = [(1, example_subject)]\<rparr>)"

text \<open>
  A state in which the last emission was at one second, the time that the clock of
  \<open>example_env\<close> shows; a message stamped at that time with two subjects; the answers
  of the outside world with a fresh pose for both, and with a pose one second old for
  the first.
\<close>

definition example_state_at :: "time \<Rightarrow> (nat \<rightharpoonup> gaze deque) \<Rightarrow> state" where
  "example_state_at t bufs = \<lparr>gaze_buffer_c = bufs, time_last = t\<rparr>"

definition example_four :: "gaze deque" where
  "example_four = \<lparr>maxlen = 5, items = [(1, 1), (2, 2), (3, 3), (4, 4)]\<rparr>"

definition example_msg2 :: "nat subject_image_list" where
  "example_msg2 =
     \<lparr>stamp = 1000000000,
      subjects = [(1, example_subject), (2, \<lparr>left = 30, right = 40\<rparr>)]\<rparr>"

definition example_world_fresh :: "nat \<Rightarrow> call_env" where
  "example_world_fresh k = example_env 1000000000 None"

definition example_world_first_stale :: "nat \<Rightarrow> call_env" where
  "example_world_first_stale k =
     (if k = 1 then example_env 0 None else example_env 1000000000 None)"

subsection \<open>Basic facts\<close>

lemma sum_average_weights: "sum_list average_weights = 1"
  by (simp add: average_weights_def)

lemma length_average_weights: "length average_weights = 5"
  by (simp add: average_weights_def)

subsection \<open>The cases of one call\<close>

lemma to_sec_quarter: "to_sec d < 0.25 \<longleftrightarrow> d < 250000000"
  by (simp add: to_sec_def)

lemma to_sec_quarter_eq: "to_sec d = 0.25 \<longleftrightarrow> d = 250000000"
  by (simp add: to_sec_def)

lemma to_sec_zero: "to_sec d = 0 \<longleftrightarrow> d = 0"
  by (simp add: to_sec_def)

lemma compute_lookup_failed:
  "getLatestCommonTime env = Inl e \<Longrightarrow>
   compute_eye_gaze_estimation X env sid ts ir il self = (Return None, self, [PrintTfError e])"
  by (simp add: compute_eye_gaze_estimation_def excepts_def)

lemma compute_stale:
  "getLatestCommonTime env = Inr lct \<Longrightarrow> \<not> to_sec (ts - lct) < 0.25 \<Longrightarrow>
   compute_eye_gaze_estimation X env sid ts ir il self =
     (Return None, self, [WriteTooBigTimeDiff (to_sec (ts - lct))])"
  by (simp add: compute_eye_gaze_estimation_def)

lemma compute_transform_failed:
  "getLatestCommonTime env = Inr lct \<Longrightarrow> to_sec (ts - lct) < 0.25 \<Longrightarrow>
   lookupTransform env = Inl e \<Longrightarrow>
   compute_eye_gaze_estimation X env sid ts ir il self =
     (Return None, self, [LookupTransform sid lct, PrintTfError e])"
  by (simp add: compute_eye_gaze_estimation_def excepts_def)

lemma compute_accepted:
  "getLatestCommonTime env = Inr lct \<Longrightarrow> to_sec (ts - lct) < 0.25 \<Longrightarrow>
   lookupTransform env = Inr tr \<Longrightarrow> gaze_buffer_c self sid = Some buf \<Longrightarrow>
   est = estimate_gaze_twoeyes X il ir (head_theta_phi X env) \<Longrightarrow>
   evs = [LookupTransform sid lct, PrintEulerAngles (limit_yaw X (snd tr)),
          EstimateGazeTwoEyes il ir (head_theta_phi X env), BufferAppend sid est] \<Longrightarrow>
   buf' = deque_append buf est \<Longrightarrow>
   self' = self\<lparr>gaze_buffer_c := (gaze_buffer_c self)(sid \<mapsto> buf')\<rparr> \<Longrightarrow>
   med = np_average (items buf') average_weights \<Longrightarrow>
   compute_eye_gaze_estimation X env sid ts ir il self =
     (if length (items buf') = 5
      then (case sendTransform env of
              Some e \<Rightarrow> excepts e self' (evs @ [PublishGaze med ts sid])
            | None \<Rightarrow>
                if to_sec (now_line89 env - time_last self) = 0
                then (Raise ZeroDivisionError, self', evs @ [PublishGaze med ts sid])
                else (Return (Some med), self'\<lparr>time_last := now_line90 env\<rparr>,
                      evs @ [PublishGaze med ts sid,
                             WriteEstGaze med (1 / to_sec (now_line89 env - time_last self))
                               (to_sec (now_line88 env - ts))]))
      else (Return None, self', evs))"
  by (cases tr)
     (auto simp add: compute_eye_gaze_estimation_def head_theta_phi_def Let_def
        length_average_weights split: prod.splits option.splits)

lemma not_skippedD:
  "\<not> skipped env ts \<Longrightarrow>
   \<exists>lct tr. getLatestCommonTime env = Inr lct \<and> to_sec (ts - lct) < 0.25
     \<and> lookupTransform env = Inr tr"
  by (auto simp add: skipped_def split: sum.splits if_splits)

lemma compute_skipped:
  "skipped env ts \<Longrightarrow>
   \<exists>evs. compute_eye_gaze_estimation X env sid ts ir il self = (Return None, self, evs)
     \<and> (\<forall>l r h. EstimateGazeTwoEyes l r h \<notin> set evs)
     \<and> (\<forall>g t k. PublishGaze g t k \<notin> set evs)
     \<and> (\<forall>k e. BufferAppend k e \<notin> set evs)"
  by (auto simp add: skipped_def compute_eye_gaze_estimation_def excepts_def
        split: sum.splits if_splits)

lemma compute_key_error:
  "\<not> skipped env ts \<Longrightarrow> gaze_buffer_c self sid = None \<Longrightarrow>
   \<exists>evs. compute_eye_gaze_estimation X env sid ts ir il self = (Raise (KeyError sid), self, evs)
     \<and> (\<forall>g t k. PublishGaze g t k \<notin> set evs)
     \<and> (\<forall>k e. BufferAppend k e \<notin> set evs)"
  by (auto simp add: skipped_def compute_eye_gaze_estimation_def Let_def
        split: sum.splits if_splits prod.splits)

text \<open>What a call that is not skipped does, for a subject that has a buffer.\<close>

lemma compute_pushes:
  assumes "\<not> skipped env ts" and "gaze_buffer_c self sid = Some buf"
  shows "gaze_buffer_c (fst (snd (compute_eye_gaze_estimation X env sid ts ir il self))) =
           (gaze_buffer_c self)
             (sid \<mapsto> deque_append buf (estimate_gaze_twoeyes X il ir (head_theta_phi X env)))"
    and "fst (compute_eye_gaze_estimation X env sid ts ir il self) =
           (if length (items (deque_append buf (estimate_gaze_twoeyes X il ir (head_theta_phi X env)))) = 5
               \<and> sendTransform env = None
            then if to_sec (now_line89 env - time_last self) = 0
                 then Raise ZeroDivisionError
                 else Return (Some (np_average
                   (items (deque_append buf (estimate_gaze_twoeyes X il ir (head_theta_phi X env))))
                   average_weights))
            else Return None)"
    and "PublishGaze g t k \<in> set (snd (snd (compute_eye_gaze_estimation X env sid ts ir il self)))
         \<longleftrightarrow> length (items (deque_append buf (estimate_gaze_twoeyes X il ir (head_theta_phi X env)))) = 5
             \<and> g = np_average
                   (items (deque_append buf (estimate_gaze_twoeyes X il ir (head_theta_phi X env))))
                   average_weights
             \<and> t = ts \<and> k = sid"
    and "EstimateGazeTwoEyes il ir (head_theta_phi X env)
           \<in> set (snd (snd (compute_eye_gaze_estimation X env sid ts ir il self)))"
    and "BufferAppend k e \<in> set (snd (snd (compute_eye_gaze_estimation X env sid ts ir il self)))
         \<longleftrightarrow> k = sid \<and> e = estimate_gaze_twoeyes X il ir (head_theta_phi X env)"
proof -
  from not_skippedD [OF assms(1)] obtain lct tr where
    a: "getLatestCommonTime env = Inr lct" "to_sec (ts - lct) < 0.25" "lookupTransform env = Inr tr"
    by blast
  note c = compute_accepted [where X = X and ir = ir and il = il,
      OF a assms(2) refl refl refl refl refl]
  show "gaze_buffer_c (fst (snd (compute_eye_gaze_estimation X env sid ts ir il self))) =
           (gaze_buffer_c self)
             (sid \<mapsto> deque_append buf (estimate_gaze_twoeyes X il ir (head_theta_phi X env)))"
    unfolding c by (simp add: excepts_def split: option.splits exn.splits)
  show "fst (compute_eye_gaze_estimation X env sid ts ir il self) =
           (if length (items (deque_append buf (estimate_gaze_twoeyes X il ir (head_theta_phi X env)))) = 5
               \<and> sendTransform env = None
            then if to_sec (now_line89 env - time_last self) = 0
                 then Raise ZeroDivisionError
                 else Return (Some (np_average
                   (items (deque_append buf (estimate_gaze_twoeyes X il ir (head_theta_phi X env))))
                   average_weights))
            else Return None)"
    unfolding c by (simp add: excepts_def split: option.splits exn.splits)
  show "PublishGaze g t k \<in> set (snd (snd (compute_eye_gaze_estimation X env sid ts ir il self)))
         \<longleftrightarrow> length (items (deque_append buf (estimate_gaze_twoeyes X il ir (head_theta_phi X env)))) = 5
             \<and> g = np_average
                   (items (deque_append buf (estimate_gaze_twoeyes X il ir (head_theta_phi X env))))
                   average_weights
             \<and> t = ts \<and> k = sid"
    unfolding c by (auto simp add: excepts_def split: option.splits exn.splits)
  show "EstimateGazeTwoEyes il ir (head_theta_phi X env)
           \<in> set (snd (snd (compute_eye_gaze_estimation X env sid ts ir il self)))"
    unfolding c by (simp add: excepts_def split: option.splits exn.splits)
  show "BufferAppend k e \<in> set (snd (snd (compute_eye_gaze_estimation X env sid ts ir il self)))
         \<longleftrightarrow> k = sid \<and> e = estimate_gaze_twoeyes X il ir (head_theta_phi X env)"
    unfolding c by (auto simp add: excepts_def split: option.splits exn.splits)
qed

lemma compute_outcome:
  "gaze_buffer_c self sid = Some buf \<Longrightarrow>
   (\<exists>g. fst (compute_eye_gaze_estimation X env sid ts ir il self) = Return g)
   \<or> fst (compute_eye_gaze_estimation X env sid ts ir il self) = Raise ZeroDivisionError"
  using compute_skipped [of env ts X sid ir il self]
    compute_pushes(2) [of env ts self sid buf X ir il]
  by (cases "skipped env ts") (auto split: if_splits)

lemma compute_buffer_other:
  "k \<noteq> sid \<Longrightarrow>
   gaze_buffer_c (fst (snd (compute_eye_gaze_estimation X env sid ts ir il self))) k = gaze_buffer_c self k"
  by (auto simp add: compute_eye_gaze_estimation_def excepts_def Let_def
        split: sum.splits if_splits option.splits prod.splits exn.splits)

lemma compute_emitsD:
  assumes "fst (compute_eye_gaze_estimation X env sid ts ir il self) = Return (Some g)
           \<or> PublishGaze g t k \<in> set (snd (snd (compute_eye_gaze_estimation X env sid ts ir il self)))"
  shows "\<exists>buf. gaze_buffer_c self sid = Some buf \<and> \<not> skipped env ts
           \<and> length (items (deque_append buf (estimate_gaze_twoeyes X il ir (head_theta_phi X env)))) = 5
           \<and> g = np_average
                   (items (deque_append buf (estimate_gaze_twoeyes X il ir (head_theta_phi X env))))
                   average_weights"
proof (cases "skipped env ts")
  case True
  from compute_skipped [OF True, where X = X and sid = sid and ir = ir and il = il
      and self = self] assms show ?thesis
    by (metis fst_conv snd_conv outcome.inject option.distinct(1))
next
  case False
  show ?thesis
  proof (cases "gaze_buffer_c self sid")
    case None
    from compute_key_error [OF False None, where X = X and ir = ir and il = il] assms
    show ?thesis
      by (metis fst_conv snd_conv outcome.distinct(1))
  next
    case (Some buf)
    from compute_pushes(2,3) [OF False Some, where X = X and ir = ir and il = il] assms
      False Some show ?thesis
      by (auto split: if_splits)
  qed
qed

lemma compute_publish_closed:
  assumes "\<not> skipped env ts" and "gaze_buffer_c self sid = Some buf"
    and "length (items (deque_append buf (estimate_gaze_twoeyes X il ir (head_theta_phi X env)))) = 5"
    and "sendTransform env = Some (ROSException ''publish() to a closed topic'')"
  shows "\<exists>evs. compute_eye_gaze_estimation X env sid ts ir il self =
           (Return None,
            self\<lparr>gaze_buffer_c := (gaze_buffer_c self)
              (sid \<mapsto> deque_append buf (estimate_gaze_twoeyes X il ir (head_theta_phi X env)))\<rparr>,
            evs @ [PublishGaze (np_average (items (deque_append buf
                      (estimate_gaze_twoeyes X il ir (head_theta_phi X env)))) average_weights) ts sid,
                   PrintSeeYa])"
proof -
  from not_skippedD [OF assms(1)] obtain lct tr where
    a: "getLatestCommonTime env = Inr lct" "to_sec (ts - lct) < 0.25" "lookupTransform env = Inr tr"
    by blast
  note c = compute_accepted [where X = X and ir = ir and il = il,
      OF a assms(2) refl refl refl refl refl]
  show ?thesis
    unfolding c using assms(3,4) by (simp add: excepts_def)
qed

lemma compute_state_cases:
  "fst (snd (compute_eye_gaze_estimation X env sid ts ir il self)) = self
   \<or> (\<exists>buf. gaze_buffer_c self sid = Some buf \<and> \<not> skipped env ts
        \<and> gaze_buffer_c (fst (snd (compute_eye_gaze_estimation X env sid ts ir il self))) =
            (gaze_buffer_c self)
              (sid \<mapsto> deque_append buf (estimate_gaze_twoeyes X il ir (head_theta_phi X env))))"
proof (cases "skipped env ts")
  case True
  from compute_skipped [OF True, where X = X and sid = sid and ir = ir and il = il
      and self = self] show ?thesis by auto
next
  case False
  show ?thesis
  proof (cases "gaze_buffer_c self sid")
    case None
    from compute_key_error [OF False None, where X = X and ir = ir and il = il]
    show ?thesis by auto
  next
    case (Some buf)
    from compute_pushes(1) [OF False Some, where X = X and ir = ir and il = il] False Some
    show ?thesis by blast
  qed
qed

subsection \<open>Facts about the buffer and the average\<close>

lemma length5E:
  assumes "length xs = 5"
  obtains e0 e1 e2 e3 e4 where "xs = [e0, e1, e2, e3, e4]"
proof -
  from assms obtain e0 r0 where "xs = e0 # r0" "length r0 = 4" by (cases xs) auto
  moreover then obtain e1 r1 where "r0 = e1 # r1" "length r1 = 3" by (cases r0) auto
  moreover then obtain e2 r2 where "r1 = e2 # r2" "length r2 = 2" by (cases r1) auto
  moreover then obtain e3 r3 where "r2 = e3 # r3" "length r3 = 1" by (cases r2) auto
  moreover then obtain e4 where "r3 = [e4]" by (cases r3) auto
  ultimately show ?thesis using that by simp
qed

lemma np_average5:
  "np_average [e0, e1, e2, e3, e4] average_weights = weighted_average5 e0 e1 e2 e3 e4"
  by (simp add: np_average_def average_weights_def weighted_average5_def mult.commute)

lemma last_deque_append:
  "0 < maxlen d \<Longrightarrow> last (items (deque_append d x)) = x"
  by (cases "items d") (simp_all add: deque_append_def Let_def)

lemma deque_append_full:
  "maxlen d = 5 \<Longrightarrow> length (items d) = 5 \<Longrightarrow> items (deque_append d x) = tl (items d) @ [x]"
  by (cases "items d") (simp_all add: deque_append_def Let_def)

lemma deque_append_bounded:
  "maxlen d = 5 \<Longrightarrow> length (items d) \<le> 5 \<Longrightarrow>
   maxlen (deque_append d x) = 5 \<and> length (items (deque_append d x)) \<le> 5"
  by (auto simp add: deque_append_def Let_def)

lemma deque_append_items:
  "maxlen d = 5 \<Longrightarrow> length (items d) \<le> 5 \<Longrightarrow>
   items (deque_append d x) = (if length (items d) = 5 then tl (items d) else items d) @ [x]"
  by (cases "items d") (auto simp add: deque_append_def Let_def)

lemma compute_bounded:
  assumes "buffers_bounded self"
  shows "buffers_bounded (fst (snd (compute_eye_gaze_estimation X env sid ts ir il self)))"
  using compute_state_cases [of X env sid ts ir il self]
proof
  assume "fst (snd (compute_eye_gaze_estimation X env sid ts ir il self)) = self"
  with assms show ?thesis by simp
next
  assume "\<exists>buf. gaze_buffer_c self sid = Some buf \<and> \<not> skipped env ts
        \<and> gaze_buffer_c (fst (snd (compute_eye_gaze_estimation X env sid ts ir il self))) =
            (gaze_buffer_c self)
              (sid \<mapsto> deque_append buf (estimate_gaze_twoeyes X il ir (head_theta_phi X env)))"
  then obtain buf where b: "gaze_buffer_c self sid = Some buf"
    and g: "gaze_buffer_c (fst (snd (compute_eye_gaze_estimation X env sid ts ir il self))) =
            (gaze_buffer_c self)
              (sid \<mapsto> deque_append buf (estimate_gaze_twoeyes X il ir (head_theta_phi X env)))"
    by blast
  from assms b have "maxlen buf = 5" "length (items buf) \<le> 5"
    by (auto simp add: buffers_bounded_def)
  from deque_append_bounded [OF this] assms show ?thesis
    unfolding buffers_bounded_def g by auto
qed

subsection \<open>The trace of one call\<close>

lemma emissions_append: "emissions sid (xs @ ys) = emissions sid xs @ emissions sid ys"
  by (induction sid xs rule: emissions.induct) simp_all

lemma pushes_append: "pushes sid (xs @ ys) = pushes sid xs @ pushes sid ys"
  by (induction sid xs rule: pushes.induct) simp_all

lemma publish_in_emissions:
  "PublishGaze g t j \<in> set evs \<Longrightarrow> g \<in> set (emissions j evs)"
  by (induction j evs rule: emissions.induct) auto

lemma append_in_pushes:
  "BufferAppend j e \<in> set evs \<Longrightarrow> e \<in> set (pushes j evs)"
  by (induction j evs rule: pushes.induct) auto

lemma sliding_append:
  "sliding d (xs @ ys) = sliding d xs @ sliding (foldl deque_append d xs) ys"
  by (induction xs arbitrary: d) simp_all

lemma buffer_of_buffer_or_new: "buffer_of self sid = items (buffer_or_new self sid)"
  by (simp add: buffer_of_def buffer_or_new_def new_deque_def split: option.splits)

lemma buffer_or_new_init: "buffer_or_new (init_state now) sid = new_deque 5"
  by (simp add: buffer_or_new_def init_state_def)

lemma compute_pushes_list:
  "pushes k (snd (snd (compute_eye_gaze_estimation X env sid ts ir il self))) =
     (if k = sid \<and> \<not> skipped env ts \<and> gaze_buffer_c self sid \<noteq> None
      then [estimate_gaze_twoeyes X il ir (head_theta_phi X env)] else [])"
  by (auto simp add: compute_eye_gaze_estimation_def skipped_def excepts_def Let_def
        head_theta_phi_def pushes_append
        split: sum.splits option.splits prod.splits exn.splits)

lemma compute_emissions:
  "emissions k (snd (snd (compute_eye_gaze_estimation X env sid ts ir il self))) =
     (if k = sid \<and> \<not> skipped env ts
      then (case gaze_buffer_c self sid of
              None \<Rightarrow> []
            | Some buf \<Rightarrow>
                if length (items (deque_append buf
                     (estimate_gaze_twoeyes X il ir (head_theta_phi X env)))) = 5
                then [np_average (items (deque_append buf
                        (estimate_gaze_twoeyes X il ir (head_theta_phi X env)))) average_weights]
                else [])
      else [])"
  by (auto simp add: compute_eye_gaze_estimation_def skipped_def excepts_def Let_def
        head_theta_phi_def length_average_weights emissions_append
        split: sum.splits option.splits prod.splits exn.splits)

lemma compute_buffer_or_new:
  "buffer_or_new (fst (snd (compute_eye_gaze_estimation X env sid ts ir il self))) k =
     (if k = sid \<and> \<not> skipped env ts \<and> gaze_buffer_c self sid \<noteq> None
      then deque_append (buffer_or_new self sid)
             (estimate_gaze_twoeyes X il ir (head_theta_phi X env))
      else buffer_or_new self k)"
proof (cases "k = sid")
  case False
  then show ?thesis by (simp add: buffer_or_new_def compute_buffer_other)
next
  case True
  show ?thesis
  proof (cases "skipped env ts")
    case s: True
    from compute_skipped [OF s, where X = X and sid = sid and ir = ir and il = il
        and self = self] s show ?thesis by auto
  next
    case s: False
    show ?thesis
    proof (cases "gaze_buffer_c self sid")
      case None
      from compute_key_error [OF s None, where X = X and ir = ir and il = il] None s
      show ?thesis by auto
    next
      case (Some buf)
      from compute_pushes(1) [OF s Some, where X = X and ir = ir and il = il] True s Some
      show ?thesis by (simp add: buffer_or_new_def)
    qed
  qed
qed

lemma compute_trace:
  "emissions k (snd (snd (compute_eye_gaze_estimation X env sid ts ir il self))) =
     sliding (buffer_or_new self k)
       (pushes k (snd (snd (compute_eye_gaze_estimation X env sid ts ir il self))))
   \<and> buffer_or_new (fst (snd (compute_eye_gaze_estimation X env sid ts ir il self))) k =
       foldl deque_append (buffer_or_new self k)
         (pushes k (snd (snd (compute_eye_gaze_estimation X env sid ts ir il self))))"
  unfolding compute_pushes_list compute_emissions compute_buffer_or_new
  by (auto simp add: buffer_or_new_def split: option.splits)

lemma compute_no_image:
  "PublishGazeImage i \<notin> set (snd (snd (compute_eye_gaze_estimation X env sid ts ir il self)))"
  by (auto simp add: compute_eye_gaze_estimation_def excepts_def Let_def
        split: sum.splits option.splits prod.splits exn.splits if_splits)

lemma compute_returned_published:
  assumes "fst (compute_eye_gaze_estimation X env sid ts ir il self) = Return (Some g)"
  shows "PublishGaze g ts sid \<in> set (snd (snd (compute_eye_gaze_estimation X env sid ts ir il self)))"
proof -
  from compute_emitsD [OF disjI1, OF assms] obtain buf where
    b: "gaze_buffer_c self sid = Some buf" "\<not> skipped env ts"
      "length (items (deque_append buf (estimate_gaze_twoeyes X il ir (head_theta_phi X env)))) = 5"
      "g = np_average
             (items (deque_append buf (estimate_gaze_twoeyes X il ir (head_theta_phi X env))))
             average_weights"
    by blast
  show ?thesis
    using compute_pushes(3) [OF b(2) b(1), where X = X and ir = ir and il = il and g = g
        and t = ts and k = sid] b(3,4) by simp
qed

subsection \<open>The loop over the subjects of a frame\<close>

lemma ensure_buffer_entry:
  "gaze_buffer_c (ensure_buffer self sid) k =
     (if k = sid \<and> gaze_buffer_c self sid = None then Some (new_deque 5) else gaze_buffer_c self k)"
  by (simp add: ensure_buffer_def)

lemma ensure_buffer_self:
  "gaze_buffer_c (ensure_buffer self sid) sid = Some (buffer_or_new self sid)"
  by (simp add: ensure_buffer_def buffer_or_new_def split: option.splits)

lemma ensure_buffer_present: "gaze_buffer_c self sid = Some buf \<Longrightarrow> ensure_buffer self sid = self"
  by (simp add: ensure_buffer_def)

lemma ensure_buffer_or_new: "buffer_or_new (ensure_buffer self sid) k = buffer_or_new self k"
  by (simp add: buffer_or_new_def ensure_buffer_def)

lemma ensure_buffer_bounded: "buffers_bounded self \<Longrightarrow> buffers_bounded (ensure_buffer self sid)"
  by (simp add: buffers_bounded_def ensure_buffer_def new_deque_def)

lemma fst_snd_case3: "fst (snd (case p of (a, b, c) \<Rightarrow> (a, b, f c))) = fst (snd p)"
  by (cases p) simp

lemma fst_case3: "fst (case p of (a, b, c) \<Rightarrow> (a, b, f c)) = fst p"
  by (cases p) simp

lemma snd_snd_case3: "snd (snd (case p of (a, b, c) \<Rightarrow> (a, b, f c))) = f (snd (snd p))"
  by (cases p) simp

text \<open>One turn of the loop: the call returns and the loop goes on, or the call leaves
  with an exception and so does the loop.\<close>

lemma loop_step:
  assumes "compute_eye_gaze_estimation X (world sid) sid ts (input_from_image X (right s))
             (input_from_image X (left s)) (ensure_buffer self sid) = (Return g, self2, evs)"
  shows "image_callback_loop X world ts ((sid, s) # rest) self img =
           (case image_callback_loop X world ts rest self2 (add_gaze_img X s g img) of
              (out, self3, evs') \<Rightarrow> (out, self3, evs @ evs'))"
  using assms
  by (simp add: ensure_buffer_def add_gaze_img_def Let_def split: option.splits)

lemma loop_step_raise:
  assumes "compute_eye_gaze_estimation X (world sid) sid ts (input_from_image X (right s))
             (input_from_image X (left s)) (ensure_buffer self sid) = (Raise e, self2, evs)"
  shows "image_callback_loop X world ts ((sid, s) # rest) self img = (Raise e, self2, evs)"
  using assms
  by (simp add: ensure_buffer_def Let_def split: option.splits)

lemma iteration_cases:
  obtains g self2 evs where
    "compute_eye_gaze_estimation X env sid ts ir il (ensure_buffer self sid) = (Return g, self2, evs)"
  | self2 evs where
    "compute_eye_gaze_estimation X env sid ts ir il (ensure_buffer self sid) =
       (Raise ZeroDivisionError, self2, evs)"
  using compute_outcome [OF ensure_buffer_self [of self sid], where X = X and env = env
      and ts = ts and ir = ir and il = il]
  by (cases "compute_eye_gaze_estimation X env sid ts ir il (ensure_buffer self sid)") auto

lemma iteration_disj:
  "(\<exists>g self2 evs. compute_eye_gaze_estimation X env sid ts ir il (ensure_buffer self sid) =
       (Return g, self2, evs))
   \<or> (\<exists>self2 evs. compute_eye_gaze_estimation X env sid ts ir il (ensure_buffer self sid) =
       (Raise ZeroDivisionError, self2, evs))"
  by (rule iteration_cases [where X = X and env = env and sid = sid and ts = ts and ir = ir
        and il = il and self = self]) blast+

lemma loop_trace:
  "emissions k (snd (snd (image_callback_loop X world ts xs self img))) =
     sliding (buffer_or_new self k)
       (pushes k (snd (snd (image_callback_loop X world ts xs self img))))
   \<and> buffer_or_new (fst (snd (image_callback_loop X world ts xs self img))) k =
       foldl deque_append (buffer_or_new self k)
         (pushes k (snd (snd (image_callback_loop X world ts xs self img))))"
proof (induction xs arbitrary: self img)
  case Nil
  show ?case by simp
next
  case (Cons x xs)
  obtain sid s where x: "x = (sid, s)" by (cases x)
  note t = compute_trace [where k = k and X = X and env = "world sid" and sid = sid and ts = ts
      and ir = "input_from_image X (right s)" and il = "input_from_image X (left s)"
      and self = "ensure_buffer self sid", unfolded ensure_buffer_or_new]
  consider (ret) g self2 evs where
      "compute_eye_gaze_estimation X (world sid) sid ts (input_from_image X (right s))
          (input_from_image X (left s)) (ensure_buffer self sid) = (Return g, self2, evs)"
    | (exc) self2 evs where
      "compute_eye_gaze_estimation X (world sid) sid ts (input_from_image X (right s))
          (input_from_image X (left s)) (ensure_buffer self sid) =
          (Raise ZeroDivisionError, self2, evs)"
    using iteration_disj [where X = X and env = "world sid" and sid = sid and ts = ts
        and ir = "input_from_image X (right s)" and il = "input_from_image X (left s)"
        and self = self] by blast
  then show ?case
  proof cases
    case ret
    from t have t': "emissions k evs = sliding (buffer_or_new self k) (pushes k evs)"
      "buffer_or_new self2 k = foldl deque_append (buffer_or_new self k) (pushes k evs)"
      by (simp_all add: ret)
    show ?thesis
      unfolding x loop_step [where world = world, OF ret] snd_snd_case3 fst_snd_case3
        emissions_append pushes_append sliding_append
      using Cons.IH [of self2 "add_gaze_img X s g img"] t' by simp
  next
    case exc
    from t show ?thesis
      unfolding x loop_step_raise [where world = world, OF exc] by (simp add: exc)
  qed
qed

lemma loop_bounded:
  "buffers_bounded self \<Longrightarrow>
   buffers_bounded (fst (snd (image_callback_loop X world ts xs self img)))"
proof (induction xs arbitrary: self img)
  case Nil
  then show ?case by simp
next
  case (Cons x xs)
  obtain sid s where x: "x = (sid, s)" by (cases x)
  note b = compute_bounded [OF ensure_buffer_bounded [OF Cons.prems, of sid], where X = X
        and env = "world sid" and sid = sid and ts = ts
        and ir = "input_from_image X (right s)" and il = "input_from_image X (left s)"]
  consider (ret) g self2 evs where
      "compute_eye_gaze_estimation X (world sid) sid ts (input_from_image X (right s))
          (input_from_image X (left s)) (ensure_buffer self sid) = (Return g, self2, evs)"
    | (exc) self2 evs where
      "compute_eye_gaze_estimation X (world sid) sid ts (input_from_image X (right s))
          (input_from_image X (left s)) (ensure_buffer self sid) =
          (Raise ZeroDivisionError, self2, evs)"
    using iteration_disj [where X = X and env = "world sid" and sid = sid and ts = ts
        and ir = "input_from_image X (right s)" and il = "input_from_image X (left s)"
        and self = self] by blast
  then show ?case
  proof cases
    case ret
    from b have "buffers_bounded self2" by (simp add: ret)
    then show ?thesis
      unfolding x loop_step [where world = world, OF ret] fst_snd_case3 by (rule Cons.IH)
  next
    case exc
    from b show ?thesis
      unfolding x loop_step_raise [where world = world, OF exc] by (simp add: exc)
  qed
qed

lemma loop_buffer_other:
  "k \<notin> fst ` set xs \<Longrightarrow>
   gaze_buffer_c (fst (snd (image_callback_loop X world ts xs self img))) k = gaze_buffer_c self k"
proof (induction xs arbitrary: self img)
  case Nil
  show ?case by simp
next
  case (Cons x xs)
  obtain sid s where x: "x = (sid, s)" by (cases x)
  from Cons.prems x have k: "k \<noteq> sid" "k \<notin> fst ` set xs" by auto
  note o = compute_buffer_other [OF k(1), where X = X and env = "world sid" and ts = ts
        and ir = "input_from_image X (right s)" and il = "input_from_image X (left s)"
        and self = "ensure_buffer self sid"]
  consider (ret) g self2 evs where
      "compute_eye_gaze_estimation X (world sid) sid ts (input_from_image X (right s))
          (input_from_image X (left s)) (ensure_buffer self sid) = (Return g, self2, evs)"
    | (exc) self2 evs where
      "compute_eye_gaze_estimation X (world sid) sid ts (input_from_image X (right s))
          (input_from_image X (left s)) (ensure_buffer self sid) =
          (Raise ZeroDivisionError, self2, evs)"
    using iteration_disj [where X = X and env = "world sid" and sid = sid and ts = ts
        and ir = "input_from_image X (right s)" and il = "input_from_image X (left s)"
        and self = self] by blast
  then show ?case
  proof cases
    case ret
    from o k(1) have "gaze_buffer_c self2 k = gaze_buffer_c self k"
      by (simp add: ret ensure_buffer_entry)
    then show ?thesis
      unfolding x loop_step [where world = world, OF ret] fst_snd_case3
      using Cons.IH [OF k(2)] by simp
  next
    case exc
    from o k(1) show ?thesis
      unfolding x loop_step_raise [where world = world, OF exc]
      by (simp add: exc ensure_buffer_entry)
  qed
qed

text \<open>An entry of the registry is never removed.\<close>

lemma compute_entry_kept:
  "gaze_buffer_c self k \<noteq> None \<Longrightarrow>
   gaze_buffer_c (fst (snd (compute_eye_gaze_estimation X env sid ts ir il self))) k \<noteq> None"
  using compute_state_cases [of X env sid ts ir il self] by (auto split: if_splits)

lemma loop_entry_kept:
  "gaze_buffer_c self k \<noteq> None \<Longrightarrow>
   gaze_buffer_c (fst (snd (image_callback_loop X world ts xs self img))) k \<noteq> None"
proof (induction xs arbitrary: self img)
  case Nil
  then show ?case by simp
next
  case (Cons x xs)
  obtain sid s where x: "x = (sid, s)" by (cases x)
  from Cons.prems have "gaze_buffer_c (ensure_buffer self sid) k \<noteq> None"
    by (simp add: ensure_buffer_entry)
  note o = compute_entry_kept [OF this, where X = X and env = "world sid" and sid = sid
        and ts = ts and ir = "input_from_image X (right s)"
        and il = "input_from_image X (left s)"]
  consider (ret) g self2 evs where
      "compute_eye_gaze_estimation X (world sid) sid ts (input_from_image X (right s))
          (input_from_image X (left s)) (ensure_buffer self sid) = (Return g, self2, evs)"
    | (exc) self2 evs where
      "compute_eye_gaze_estimation X (world sid) sid ts (input_from_image X (right s))
          (input_from_image X (left s)) (ensure_buffer self sid) =
          (Raise ZeroDivisionError, self2, evs)"
    using iteration_disj [where X = X and env = "world sid" and sid = sid and ts = ts
        and ir = "input_from_image X (right s)" and il = "input_from_image X (left s)"
        and self = self] by blast
  then show ?case
  proof cases
    case ret
    from o have "gaze_buffer_c self2 k \<noteq> None" by (simp add: ret)
    then show ?thesis
      unfolding x loop_step [where world = world, OF ret] fst_snd_case3 by (rule Cons.IH)
  next
    case exc
    from o show ?thesis
      unfolding x loop_step_raise [where world = world, OF exc] by (simp add: exc)
  qed
qed

text \<open>When the loop returns, it has gone through every subject of the list.\<close>

lemma loop_returned_entry:
  "fst (image_callback_loop X world ts xs self img) = Return i \<Longrightarrow> k \<in> fst ` set xs \<Longrightarrow>
   gaze_buffer_c (fst (snd (image_callback_loop X world ts xs self img))) k \<noteq> None"
proof (induction xs arbitrary: self img)
  case Nil
  then show ?case by simp
next
  case (Cons x xs)
  obtain sid s where x: "x = (sid, s)" by (cases x)
  have e: "gaze_buffer_c (ensure_buffer self sid) sid \<noteq> None"
    by (simp add: ensure_buffer_self)
  note o = compute_entry_kept [OF e, where X = X and env = "world sid" and sid = sid
        and ts = ts and ir = "input_from_image X (right s)"
        and il = "input_from_image X (left s)"]
  consider (ret) g self2 evs where
      "compute_eye_gaze_estimation X (world sid) sid ts (input_from_image X (right s))
          (input_from_image X (left s)) (ensure_buffer self sid) = (Return g, self2, evs)"
    | (exc) self2 evs where
      "compute_eye_gaze_estimation X (world sid) sid ts (input_from_image X (right s))
          (input_from_image X (left s)) (ensure_buffer self sid) =
          (Raise ZeroDivisionError, self2, evs)"
    using iteration_disj [where X = X and env = "world sid" and sid = sid and ts = ts
        and ir = "input_from_image X (right s)" and il = "input_from_image X (left s)"
        and self = self] by blast
  then show ?case
  proof cases
    case ret
    from o have s2: "gaze_buffer_c self2 sid \<noteq> None" by (simp add: ret)
    from Cons.prems(1) have r: "fst (image_callback_loop X world ts xs self2
        (add_gaze_img X s g img)) = Return i"
      unfolding x loop_step [where world = world, OF ret] fst_case3 .
    show ?thesis
    proof (cases "k = sid")
      case True
      show ?thesis
        unfolding x loop_step [where world = world, OF ret] fst_snd_case3 True
        by (rule loop_entry_kept [OF s2])
    next
      case False
      with Cons.prems(2) x have "k \<in> fst ` set xs" by auto
      from Cons.IH [OF r this] show ?thesis
        unfolding x loop_step [where world = world, OF ret] fst_snd_case3 .
    qed
  next
    case exc
    from Cons.prems(1) show ?thesis
      unfolding x loop_step_raise [where world = world, OF exc] by simp
  qed
qed

lemma loop_no_image:
  "PublishGazeImage i \<notin> set (snd (snd (image_callback_loop X world ts xs self img)))"
proof (induction xs arbitrary: self img)
  case Nil
  show ?case by simp
next
  case (Cons x xs)
  obtain sid s where x: "x = (sid, s)" by (cases x)
  note o = compute_no_image [where X = X and env = "world sid" and sid = sid and ts = ts
        and ir = "input_from_image X (right s)" and il = "input_from_image X (left s)"
        and self = "ensure_buffer self sid" and i = i]
  consider (ret) g self2 evs where
      "compute_eye_gaze_estimation X (world sid) sid ts (input_from_image X (right s))
          (input_from_image X (left s)) (ensure_buffer self sid) = (Return g, self2, evs)"
    | (exc) self2 evs where
      "compute_eye_gaze_estimation X (world sid) sid ts (input_from_image X (right s))
          (input_from_image X (left s)) (ensure_buffer self sid) =
          (Raise ZeroDivisionError, self2, evs)"
    using iteration_disj [where X = X and env = "world sid" and sid = sid and ts = ts
        and ir = "input_from_image X (right s)" and il = "input_from_image X (left s)"
        and self = self] by blast
  then show ?case
  proof cases
    case ret
    from o have "PublishGazeImage i \<notin> set evs" by (simp add: ret)
    then show ?thesis
      unfolding x loop_step [where world = world, OF ret] snd_snd_case3
      using Cons.IH [of self2 "add_gaze_img X s g img"] by simp
  next
    case exc
    from o show ?thesis
      unfolding x loop_step_raise [where world = world, OF exc] by (simp add: exc)
  qed
qed

lemma loop_pushes_skipped:
  "skipped (world sid) ts \<or> sid \<notin> fst ` set xs \<Longrightarrow>
   pushes sid (snd (snd (image_callback_loop X world ts xs self img))) = []"
proof (induction xs arbitrary: self img)
  case Nil
  show ?case by simp
next
  case (Cons x xs)
  obtain k t where x: "x = (k, t)" by (cases x)
  from Cons.prems x have p: "skipped (world sid) ts \<or> sid \<notin> fst ` set xs"
    and q: "sid = k \<longrightarrow> skipped (world k) ts" by auto
  note o = compute_pushes_list [where k = sid and X = X and env = "world k" and sid = k
        and ts = ts and ir = "input_from_image X (right t)"
        and il = "input_from_image X (left t)" and self = "ensure_buffer self k"]
  consider (ret) g self2 evs where
      "compute_eye_gaze_estimation X (world k) k ts (input_from_image X (right t))
          (input_from_image X (left t)) (ensure_buffer self k) = (Return g, self2, evs)"
    | (exc) self2 evs where
      "compute_eye_gaze_estimation X (world k) k ts (input_from_image X (right t))
          (input_from_image X (left t)) (ensure_buffer self k) =
          (Raise ZeroDivisionError, self2, evs)"
    using iteration_disj [where X = X and env = "world k" and sid = k and ts = ts
        and ir = "input_from_image X (right t)" and il = "input_from_image X (left t)"
        and self = self] by blast
  then show ?case
  proof cases
    case ret
    from o q have "pushes sid evs = []" by (auto simp add: ret)
    then show ?thesis
      unfolding x loop_step [where world = world, OF ret] snd_snd_case3 pushes_append
      using Cons.IH [OF p] by simp
  next
    case exc
    from o q show ?thesis
      unfolding x loop_step_raise [where world = world, OF exc] by (auto simp add: exc)
  qed
qed

lemma loop_pushes_member:
  "distinct (map fst xs) \<Longrightarrow> (sid, s) \<in> set xs \<Longrightarrow>
   fst (image_callback_loop X world ts xs self img) = Return i \<Longrightarrow>
   pushes sid (snd (snd (image_callback_loop X world ts xs self img))) =
     (if skipped (world sid) ts then [] else [raw_estimate X (world sid) s])"
proof (induction xs arbitrary: self img)
  case Nil
  then show ?case by simp
next
  case (Cons x xs)
  obtain k t where x: "x = (k, t)" by (cases x)
  from Cons.prems(1) x have d: "distinct (map fst xs)" "k \<notin> fst ` set xs" by auto
  note o = compute_pushes_list [where k = sid and X = X and env = "world k" and sid = k
        and ts = ts and ir = "input_from_image X (right t)"
        and il = "input_from_image X (left t)" and self = "ensure_buffer self k"]
  consider (ret) g self2 evs where
      "compute_eye_gaze_estimation X (world k) k ts (input_from_image X (right t))
          (input_from_image X (left t)) (ensure_buffer self k) = (Return g, self2, evs)"
    | (exc) self2 evs where
      "compute_eye_gaze_estimation X (world k) k ts (input_from_image X (right t))
          (input_from_image X (left t)) (ensure_buffer self k) =
          (Raise ZeroDivisionError, self2, evs)"
    using iteration_disj [where X = X and env = "world k" and sid = k and ts = ts
        and ir = "input_from_image X (right t)" and il = "input_from_image X (left t)"
        and self = self] by blast
  then show ?case
  proof cases
    case ret
    from Cons.prems(3) have r: "fst (image_callback_loop X world ts xs self2
        (add_gaze_img X t g img)) = Return i"
      unfolding x loop_step [where world = world, OF ret] fst_case3 .
    show ?thesis
    proof (cases "(sid, s) = (k, t)")
      case True
      then have e: "k = sid" "t = s" by auto
      note ret' = ret [unfolded e]
      have "pushes sid evs =
          (if skipped (world sid) ts then [] else [raw_estimate X (world sid) s])"
        using compute_pushes_list [where k = sid and X = X and env = "world sid" and sid = sid
          and ts = ts and ir = "input_from_image X (right s)"
          and il = "input_from_image X (left s)" and self = "ensure_buffer self sid"]
        by (simp add: ret' ensure_buffer_self raw_estimate_def)
      moreover have "pushes sid (snd (snd (image_callback_loop X world ts xs self2
          (add_gaze_img X t g img)))) = []"
        using d(2) e by (intro loop_pushes_skipped) simp
      ultimately show ?thesis
        unfolding x loop_step [where world = world, OF ret] snd_snd_case3 pushes_append
        by simp
    next
      case False
      with Cons.prems(2) x have m: "(sid, s) \<in> set xs" by auto
      with d(2) have n: "sid \<noteq> k" by force
      from o n have "pushes sid evs = []" by (simp add: ret)
      then show ?thesis
        unfolding x loop_step [where world = world, OF ret] snd_snd_case3 pushes_append
        using Cons.IH [OF d(1) m r] by simp
    qed
  next
    case exc
    from Cons.prems(3) show ?thesis
      unfolding x loop_step_raise [where world = world, OF exc] by simp
  qed
qed

text \<open>The call of the estimator for the subject at the head of the list, and for every
  subject of the list when the loop returns.\<close>

lemma iteration_estimator_call:
  "\<not> skipped env ts \<Longrightarrow>
   EstimateGazeTwoEyes il ir (head_theta_phi X env)
     \<in> set (snd (snd (compute_eye_gaze_estimation X env sid ts ir il (ensure_buffer self sid))))"
  by (rule compute_pushes(4) [OF _ ensure_buffer_self])

lemma loop_estimator_head:
  assumes "\<not> skipped (world sid) ts"
  shows "EstimateGazeTwoEyes (input_from_image X (left s)) (input_from_image X (right s))
       (head_theta_phi X (world sid))
     \<in> set (snd (snd (image_callback_loop X world ts ((sid, s) # rest) self img)))"
proof -
  note o = iteration_estimator_call [OF assms, where X = X and sid = sid
      and ir = "input_from_image X (right s)" and il = "input_from_image X (left s)"
      and self = self]
  consider (ret) g self2 evs where
      "compute_eye_gaze_estimation X (world sid) sid ts (input_from_image X (right s))
          (input_from_image X (left s)) (ensure_buffer self sid) = (Return g, self2, evs)"
    | (exc) self2 evs where
      "compute_eye_gaze_estimation X (world sid) sid ts (input_from_image X (right s))
          (input_from_image X (left s)) (ensure_buffer self sid) =
          (Raise ZeroDivisionError, self2, evs)"
    using iteration_disj [where X = X and env = "world sid" and sid = sid and ts = ts
        and ir = "input_from_image X (right s)" and il = "input_from_image X (left s)"
        and self = self] by blast
  then show ?thesis
  proof cases
    case ret
    from o show ?thesis
      unfolding loop_step [where world = world, OF ret] snd_snd_case3 by (simp add: ret)
  next
    case exc
    from o show ?thesis
      unfolding loop_step_raise [where world = world, OF exc] by (simp add: exc)
  qed
qed

lemma loop_estimator_returned:
  "fst (image_callback_loop X world ts xs self img) = Return i \<Longrightarrow>
   (sid, s) \<in> set xs \<Longrightarrow> \<not> skipped (world sid) ts \<Longrightarrow>
   EstimateGazeTwoEyes (input_from_image X (left s)) (input_from_image X (right s))
       (head_theta_phi X (world sid))
     \<in> set (snd (snd (image_callback_loop X world ts xs self img)))"
proof (induction xs arbitrary: self img)
  case Nil
  then show ?case by simp
next
  case (Cons x xs)
  obtain k t where x: "x = (k, t)" by (cases x)
  show ?case
  proof (cases "(sid, s) = (k, t)")
    case True
    then have e: "k = sid" "t = s" by auto
    show ?thesis
      unfolding x e by (rule loop_estimator_head [where world = world, OF Cons.prems(3)])
  next
    case False
    with Cons.prems(2) x have m: "(sid, s) \<in> set xs" by auto
    consider (ret) g self2 evs where
        "compute_eye_gaze_estimation X (world k) k ts (input_from_image X (right t))
            (input_from_image X (left t)) (ensure_buffer self k) = (Return g, self2, evs)"
      | (exc) self2 evs where
        "compute_eye_gaze_estimation X (world k) k ts (input_from_image X (right t))
            (input_from_image X (left t)) (ensure_buffer self k) =
            (Raise ZeroDivisionError, self2, evs)"
      using iteration_disj [where X = X and env = "world k" and sid = k and ts = ts
          and ir = "input_from_image X (right t)" and il = "input_from_image X (left t)"
          and self = self] by blast
    then show ?thesis
    proof cases
      case ret
      from Cons.prems(1) have r: "fst (image_callback_loop X world ts xs self2
          (add_gaze_img X t g img)) = Return i"
        unfolding x loop_step [where world = world, OF ret] fst_case3 .
      from Cons.IH [OF r m Cons.prems(3)] show ?thesis
        unfolding x loop_step [where world = world, OF ret] snd_snd_case3 by simp
    next
      case exc
      from Cons.prems(1) show ?thesis
        unfolding x loop_step_raise [where world = world, OF exc] by simp
    qed
  qed
qed

subsection \<open>The callback and a run\<close>

lemma image_callback_state:
  "fst (snd (image_callback X world msg self)) =
     fst (snd (image_callback_loop X world (stamp msg) (subjects msg) self None))"
  by (simp add: image_callback_def Let_def split: prod.splits outcome.splits option.splits)

lemma image_callback_events:
  "snd (snd (image_callback X world msg self)) =
     snd (snd (image_callback_loop X world (stamp msg) (subjects msg) self None)) @
     (case fst (image_callback_loop X world (stamp msg) (subjects msg) self None) of
        Return (Some i) \<Rightarrow> [PublishGazeImage i] | _ \<Rightarrow> [])"
  by (simp add: image_callback_def Let_def split: prod.splits outcome.splits option.splits)

lemma image_callback_returned:
  "fst (image_callback X world msg self) = Return () \<Longrightarrow>
   \<exists>i. fst (image_callback_loop X world (stamp msg) (subjects msg) self None) = Return i"
  by (auto simp add: image_callback_def Let_def split: prod.splits outcome.splits option.splits)

lemma image_callback_pushes:
  "pushes k (snd (snd (image_callback X world msg self))) =
     pushes k (snd (snd (image_callback_loop X world (stamp msg) (subjects msg) self None)))"
  unfolding image_callback_events pushes_append
  by (simp split: outcome.splits option.splits)

lemma image_callback_emissions:
  "emissions k (snd (snd (image_callback X world msg self))) =
     emissions k (snd (snd (image_callback_loop X world (stamp msg) (subjects msg) self None)))"
  unfolding image_callback_events emissions_append
  by (simp split: outcome.splits option.splits)

lemma image_callback_trace:
  "emissions k (snd (snd (image_callback X world msg self))) =
     sliding (buffer_or_new self k) (pushes k (snd (snd (image_callback X world msg self))))
   \<and> buffer_or_new (fst (snd (image_callback X world msg self))) k =
       foldl deque_append (buffer_or_new self k)
         (pushes k (snd (snd (image_callback X world msg self))))"
  unfolding image_callback_pushes image_callback_emissions image_callback_state
  by (rule loop_trace)

lemma image_callback_bounded:
  "buffers_bounded self \<Longrightarrow> buffers_bounded (fst (snd (image_callback X world msg self)))"
  unfolding image_callback_state by (rule loop_bounded)

lemma spin_Cons:
  "spin X ((world, msg) # rest) self =
     (fst (spin X rest (fst (snd (image_callback X world msg self)))),
      snd (snd (image_callback X world msg self))
        @ snd (spin X rest (fst (snd (image_callback X world msg self)))))"
  by (simp split: prod.splits)

lemma init_state_bounded: "buffers_bounded (init_state now)"
  by (simp add: buffers_bounded_def init_state_def)

lemma spin_bounded:
  "buffers_bounded self \<Longrightarrow> buffers_bounded (fst (spin X frames self))"
proof (induction frames arbitrary: self)
  case Nil
  then show ?case by simp
next
  case (Cons f frames)
  obtain world msg where f: "f = (world, msg)" by (cases f)
  show ?case
    unfolding f spin_Cons fst_conv
    by (rule Cons.IH [OF image_callback_bounded [OF Cons.prems]])
qed

lemma spin_trace:
  "emissions k (snd (spin X frames self)) =
     sliding (buffer_or_new self k) (pushes k (snd (spin X frames self)))
   \<and> buffer_or_new (fst (spin X frames self)) k =
       foldl deque_append (buffer_or_new self k) (pushes k (snd (spin X frames self)))"
proof (induction frames arbitrary: self)
  case Nil
  show ?case by simp
next
  case (Cons f frames)
  obtain world msg where f: "f = (world, msg)" by (cases f)
  note t = image_callback_trace [of k X world msg self]
  note ih = Cons.IH [of "fst (snd (image_callback X world msg self))"]
  show ?case
    unfolding f spin_Cons fst_conv snd_conv emissions_append pushes_append sliding_append
    using t ih by simp
qed

subsection \<open>The averages of a sequence of pushes\<close>

lemma sliding_six:
  "sliding (new_deque 5) [e0, e1, e2, e3, e4, e5] =
     [weighted_average5 e0 e1 e2 e3 e4, weighted_average5 e1 e2 e3 e4 e5]"
  by (simp add: new_deque_def deque_append_def np_average5)

lemma foldl_six:
  "items (foldl deque_append (new_deque 5) [e0, e1, e2, e3, e4, e5]) = [e1, e2, e3, e4, e5]"
  by (simp add: new_deque_def deque_append_def)

lemma last_five_snoc:
  assumes "maxlen d = 5" and "items d = drop (length h - 5) h"
  shows "items (deque_append d e) = drop (length (h @ [e]) - 5) (h @ [e])"
proof (cases "5 \<le> length h")
  case True
  then have l: "length (items d) = 5" using assms(2) by simp
  have a: "length h - 4 = Suc (length h - 5)" using True by arith
  have "tl (drop (length h - 5) h) = drop (length h - 4) h"
    unfolding a by (simp add: drop_Suc tl_drop)
  then show ?thesis
    using deque_append_full [OF assms(1) l, of e] assms(2) True by simp
next
  case False
  then have "items d = h" using assms(2) by simp
  with False assms(1) show ?thesis by (simp add: deque_append_def Let_def)
qed

lemma sliding_closed:
  assumes "maxlen d = 5" and "items d = drop (length h - 5) h"
  shows "sliding d es =
           map (\<lambda>i. np_average (take 5 (drop i (h @ es))) average_weights)
             [length h - 4 ..< length (h @ es) - 4]"
  using assms
proof (induction es arbitrary: d h)
  case Nil
  show ?case by simp
next
  case (Cons e es)
  have m: "maxlen (deque_append d e) = 5"
    using Cons.prems(1) by (simp add: deque_append_def Let_def)
  note n = last_five_snoc [OF Cons.prems, of e]
  note ih = Cons.IH [OF m n]
  show ?case
  proof (cases "4 \<le> length h")
    case True
    then have len: "length (items (deque_append d e)) = 5" unfolding n by simp
    have w: "take 5 (drop (length h - 4) (h @ e # es)) = items (deque_append d e)"
      unfolding n using True by simp
    have a: "length (h @ [e]) - 4 = Suc (length h - 4)"
      "length ((h @ [e]) @ es) - 4 = length (h @ e # es) - 4"
      "length h - 4 < length (h @ e # es) - 4"
      using True by simp_all
    have r: "[length h - 4 ..< length (h @ e # es) - 4] =
        (length h - 4) # [length (h @ [e]) - 4 ..< length ((h @ [e]) @ es) - 4]"
      unfolding a(1,2) using a(3) by (rule upt_conv_Cons)
    show ?thesis
      unfolding r using ih len w by simp
  next
    case False
    then have len: "length (items (deque_append d e)) \<noteq> 5" unfolding n by simp
    have r: "[length h - 4 ..< length (h @ e # es) - 4] =
        [length (h @ [e]) - 4 ..< length ((h @ [e]) @ es) - 4]"
      using False by simp
    show ?thesis
      unfolding r using ih len by simp
  qed
qed

lemma sliding_new:
  "sliding (new_deque 5) es =
     map (\<lambda>i. np_average (take 5 (drop i es)) average_weights) [0 ..< length es - 4]"
  using sliding_closed [of "new_deque 5" "[]" es] by (simp add: new_deque_def)

lemmas example_defs =
  compute_eye_gaze_estimation_def example_X_def example_env_def example_state_def
  to_sec_def Let_def deque_append_def np_average_def average_weights_def excepts_def
  head_theta_phi_def

subsection \<open>The staleness gate\<close>

text \<open>
  Claim C3. With \<open>t_pose\<close> the latest common time of the head pose and \<open>t_frame\<close> the
  stamp of the frame, the call goes on to look the transform up exactly when
  \<open>t_frame - t_pose\<close> is less than 0.25 s, that is less than 250000000 ns. Otherwise,
  and so at the boundary of exactly 0.25 s, it writes the diagnostic of a too big time
  difference and returns \<open>None\<close> with the state as it was: the subject is skipped.
\<close>

theorem staleness_gate:
  assumes "getLatestCommonTime env = Inr t_pose"
  shows "(LookupTransform sid t_pose
            \<in> set (snd (snd (compute_eye_gaze_estimation X env sid t_frame ir il self)))
          \<longleftrightarrow> to_sec (t_frame - t_pose) < 0.25)
       \<and> (to_sec (t_frame - t_pose) < 0.25 \<longleftrightarrow> t_frame - t_pose < 250000000)
       \<and> (\<not> to_sec (t_frame - t_pose) < 0.25 \<longrightarrow>
            skipped env t_frame
            \<and> compute_eye_gaze_estimation X env sid t_frame ir il self =
                (Return None, self, [WriteTooBigTimeDiff (to_sec (t_frame - t_pose))]))
       \<and> (t_frame - t_pose = 250000000 \<longrightarrow>
            compute_eye_gaze_estimation X env sid t_frame ir il self =
              (Return None, self, [WriteTooBigTimeDiff 0.25]))"
proof (cases "to_sec (t_frame - t_pose) < 0.25")
  case True
  have "LookupTransform sid t_pose
          \<in> set (snd (snd (compute_eye_gaze_estimation X env sid t_frame ir il self)))"
    using assms True
    by (auto simp add: compute_eye_gaze_estimation_def excepts_def Let_def
          split: sum.splits option.splits prod.splits exn.splits)
  moreover have q: "t_frame - t_pose < 250000000"
    using True to_sec_quarter [of "t_frame - t_pose"] by blast
  moreover from q have "t_frame - t_pose \<noteq> 250000000" by simp
  ultimately show ?thesis using True by blast
next
  case False
  note st = compute_stale [OF assms False, of X sid ir il self]
  have "skipped env t_frame" using assms False by (simp add: skipped_def)
  moreover have "t_frame - t_pose = 250000000 \<Longrightarrow>
      compute_eye_gaze_estimation X env sid t_frame ir il self =
        (Return None, self, [WriteTooBigTimeDiff 0.25])"
    by (simp add: st to_sec_def)
  moreover have "\<not> t_frame - t_pose < 250000000"
    using False to_sec_quarter [of "t_frame - t_pose"] by blast
  moreover have "LookupTransform sid t_pose
          \<notin> set (snd (snd (compute_eye_gaze_estimation X env sid t_frame ir il self)))"
    by (simp add: st)
  ultimately show ?thesis using False st by blast
qed

theorem staleness_gate_witness:
  "getLatestCommonTime (example_env 0 None) = Inr 0
   \<and> \<not> to_sec (250000000 - 0) < 0.25
   \<and> (250000000 :: int) - 0 = 250000000
   \<and> compute_eye_gaze_estimation example_X (example_env 0 None) 1 250000000 20 10
        (example_state []) = (Return None, example_state [], [WriteTooBigTimeDiff 0.25])"
proof -
  have h: "getLatestCommonTime (example_env 0 None) = Inr 0"
    by (simp add: example_env_def)
  show ?thesis
    using staleness_gate [OF h, of 1 example_X 250000000 20 10 "example_state []"] h
    by (simp add: to_sec_def)
qed

subsection \<open>A skipped subject\<close>

text \<open>
  Claim C7. When the subject is skipped, because a lookup raises or the pose is stale, the
  call returns \<open>None\<close>, leaves the whole state as it was and does not call the
  estimator; over the frame, the contents of the buffer of that subject are the same
  before and after the callback, and an entry that existed is unchanged. A subject that
  had no entry has none afterwards or a new empty buffer; when the callback returns it
  has the new empty buffer exactly if it is in the frame.
\<close>

theorem skipped_subject_untouched:
  assumes "skipped (world sid) (stamp msg)" and "distinct (map fst (subjects msg))"
  shows "fst (compute_eye_gaze_estimation X (world sid) sid (stamp msg) ir il self) = Return None
       \<and> fst (snd (compute_eye_gaze_estimation X (world sid) sid (stamp msg) ir il self)) = self
       \<and> (\<forall>l r h. EstimateGazeTwoEyes l r h
              \<notin> set (snd (snd (compute_eye_gaze_estimation X (world sid) sid (stamp msg) ir il self))))
       \<and> buffer_of (fst (snd (image_callback X world msg self))) sid = buffer_of self sid
       \<and> (case gaze_buffer_c self sid of
             None \<Rightarrow> gaze_buffer_c (fst (snd (image_callback X world msg self))) sid = None
                      \<or> gaze_buffer_c (fst (snd (image_callback X world msg self))) sid
                          = Some (new_deque 5)
           | Some buf \<Rightarrow> gaze_buffer_c (fst (snd (image_callback X world msg self))) sid
                          = Some buf)
       \<and> (fst (image_callback X world msg self) = Return () \<longrightarrow>
            gaze_buffer_c (fst (snd (image_callback X world msg self))) sid =
              (case gaze_buffer_c self sid of
                 None \<Rightarrow> if sid \<in> fst ` set (subjects msg) then Some (new_deque 5) else None
               | Some buf \<Rightarrow> Some buf))"
proof -
  let ?after = "fst (snd (image_callback X world msg self))"
  from compute_skipped [OF assms(1), where X = X and sid = sid and ir = ir and il = il and self = self]
  obtain evs where
    c: "compute_eye_gaze_estimation X (world sid) sid (stamp msg) ir il self = (Return None, self, evs)"
    and e: "\<forall>l r h. EstimateGazeTwoEyes l r h \<notin> set evs"
    by blast
  have p: "pushes sid (snd (snd (image_callback X world msg self))) = []"
    unfolding image_callback_pushes using assms(1) by (intro loop_pushes_skipped) simp
  have bn: "buffer_or_new ?after sid = buffer_or_new self sid"
    using image_callback_trace [of sid X world msg self] by (simp add: p)
  then have b: "buffer_of ?after sid = buffer_of self sid"
    by (simp add: buffer_of_buffer_or_new)
  have kept: "gaze_buffer_c ?after sid \<noteq> None" if "gaze_buffer_c self sid \<noteq> None"
    unfolding image_callback_state by (rule loop_entry_kept [OF that])
  have entry: "(case gaze_buffer_c self sid of
             None \<Rightarrow> gaze_buffer_c ?after sid = None \<or> gaze_buffer_c ?after sid = Some (new_deque 5)
           | Some buf \<Rightarrow> gaze_buffer_c ?after sid = Some buf)"
    using bn kept by (auto simp add: buffer_or_new_def split: option.splits)
  have ret: "gaze_buffer_c ?after sid =
              (case gaze_buffer_c self sid of
                 None \<Rightarrow> if sid \<in> fst ` set (subjects msg) then Some (new_deque 5) else None
               | Some buf \<Rightarrow> Some buf)"
    if r: "fst (image_callback X world msg self) = Return ()"
  proof (cases "sid \<in> fst ` set (subjects msg)")
    case True
    from image_callback_returned [OF r] obtain i where
      "fst (image_callback_loop X world (stamp msg) (subjects msg) self None) = Return i" ..
    from loop_returned_entry [OF this True] have "gaze_buffer_c ?after sid \<noteq> None"
      by (simp add: image_callback_state)
    with entry True show ?thesis by (auto split: option.splits)
  next
    case False
    from loop_buffer_other [OF False] show ?thesis
      using False by (simp add: image_callback_state split: option.splits)
  qed
  from c e b entry ret show ?thesis by simp
qed

theorem skipped_subject_untouched_witness:
  "skipped (example_env 0 None) (stamp (example_msg 300000000))
   \<and> distinct (map fst (subjects (example_msg 300000000)))
   \<and> fst (image_callback example_X (\<lambda>k. example_env 0 None)
        (example_msg 300000000) (example_state [(1, 2)])) = Return ()
   \<and> buffer_of (fst (snd (image_callback example_X (\<lambda>k. example_env 0 None)
        (example_msg 300000000) (example_state [(1, 2)])))) 1 = [(1, 2)]"
proof -
  have h1: "skipped (example_env 0 None) (stamp (example_msg 300000000))"
    by (simp add: skipped_def example_env_def example_msg_def to_sec_def)
  have h2: "distinct (map fst (subjects (example_msg 300000000)))"
    by (simp add: example_msg_def)
  have h3: "fst (image_callback example_X (\<lambda>k. example_env 0 None)
        (example_msg 300000000) (example_state [(1, 2)])) = Return ()"
    by (simp add: example_defs example_msg_def example_subject_def image_callback_def)
  show ?thesis
    using skipped_subject_untouched [of "\<lambda>k. example_env 0 None" 1 "example_msg 300000000",
        OF h1 h2, of example_X 20 10 "example_state [(1, 2)]"] h1 h2 h3
    by (simp add: buffer_of_def example_state_def)
qed

subsection \<open>The weighted average\<close>

text \<open>
  Claim C2. Whenever a call returns a smoothed estimate, or hands one to
  \<^verbatim>\<open>publish_gaze\<close>, the buffer of the subject holds five samples \<open>e0, ..., e4\<close> after the
  insertion, from the oldest to the newest, and the estimate is the sum of
  \<open>w\<^sub>i * e\<^sub>i\<close> divided by the sum of the \<open>w\<^sub>i\<close>, on theta and on phi, for the weights
  0.1, 0.125, 0.175, 0.2, 0.4 in this order: the first weight goes to the oldest sample
  in the buffer.
\<close>

theorem emitted_weighted_average:
  assumes "fst (compute_eye_gaze_estimation X env sid ts ir il self) = Return (Some g)
           \<or> PublishGaze g t k \<in> set (snd (snd (compute_eye_gaze_estimation X env sid ts ir il self)))"
  shows "\<exists>e0 e1 e2 e3 e4.
           buffer_of (fst (snd (compute_eye_gaze_estimation X env sid ts ir il self))) sid
             = [e0, e1, e2, e3, e4]
         \<and> g = weighted_average5 e0 e1 e2 e3 e4
         \<and> g = ((\<Sum>i<5. average_weights ! i * fst ([e0, e1, e2, e3, e4] ! i))
                   / (\<Sum>i<5. average_weights ! i),
                 (\<Sum>i<5. average_weights ! i * snd ([e0, e1, e2, e3, e4] ! i))
                   / (\<Sum>i<5. average_weights ! i))"
proof -
  from compute_emitsD [OF assms] obtain buf where
    b: "gaze_buffer_c self sid = Some buf" "\<not> skipped env ts"
      "length (items (deque_append buf (estimate_gaze_twoeyes X il ir (head_theta_phi X env)))) = 5"
      "g = np_average
             (items (deque_append buf (estimate_gaze_twoeyes X il ir (head_theta_phi X env))))
             average_weights"
    by blast
  from b(3) obtain e0 e1 e2 e3 e4 where
    e: "items (deque_append buf (estimate_gaze_twoeyes X il ir (head_theta_phi X env)))
          = [e0, e1, e2, e3, e4]"
    by (rule length5E)
  have "buffer_of (fst (snd (compute_eye_gaze_estimation X env sid ts ir il self))) sid
          = [e0, e1, e2, e3, e4]"
    using compute_pushes(1) [OF b(2) b(1), where X = X and ir = ir and il = il] e
    by (simp add: buffer_of_def)
  moreover have "g = weighted_average5 e0 e1 e2 e3 e4"
    using b(4) e by (simp add: np_average5)
  moreover have "weighted_average5 e0 e1 e2 e3 e4 =
      ((\<Sum>i<5. average_weights ! i * fst ([e0, e1, e2, e3, e4] ! i)) / (\<Sum>i<5. average_weights ! i),
       (\<Sum>i<5. average_weights ! i * snd ([e0, e1, e2, e3, e4] ! i)) / (\<Sum>i<5. average_weights ! i))"
    by (simp add: weighted_average5_def average_weights_def eval_nat_numeral
          sum.lessThan_Suc)
  ultimately show ?thesis by blast
qed

theorem emitted_weighted_average_witness:
  "fst (compute_eye_gaze_estimation example_X (example_env 0 None) 1 0 20 10
          (example_state [(1, 1), (2, 2), (3, 3), (4, 4)])) = Return (Some (227 / 40, 387 / 40))
   \<and> (\<exists>e0 e1 e2 e3 e4.
         buffer_of (fst (snd (compute_eye_gaze_estimation example_X (example_env 0 None) 1 0 20 10
           (example_state [(1, 1), (2, 2), (3, 3), (4, 4)])))) 1 = [e0, e1, e2, e3, e4]
         \<and> (227 / 40, 387 / 40) = weighted_average5 e0 e1 e2 e3 e4)"
proof -
  have h: "fst (compute_eye_gaze_estimation example_X (example_env 0 None) 1 0 20 10
          (example_state [(1, 1), (2, 2), (3, 3), (4, 4)])) = Return (Some (227 / 40, 387 / 40))"
    by (simp add: example_defs)
  from emitted_weighted_average [OF disjI1, OF h] h show ?thesis by blast
qed

subsection \<open>The emission threshold\<close>

text \<open>
  Claim C1, amended. For a call that is not skipped, on a subject with a buffer: the raw
  estimate is appended to the buffer; a buffer of capacity five holding \<open>n \<le> 5\<close> samples
  holds \<open>min 5 (n + 1)\<close> afterwards; a smoothed estimate is handed to
  \<^verbatim>\<open>publish_gaze\<close> if and only if the length after the insertion is five; and the call
  returns that estimate if and only if, moreover, publishing does not raise (it returns
  \<open>None\<close> otherwise). The statement about the value returned leaves out the calls in
  which the window is full, publishing returns and the clock of line 89 shows
  \<^verbatim>\<open>self.time_last\<close>. Over a run from the initial state in which \<open>n\<close> estimates are
  appended for a subject, \<open>n - 4\<close> estimates are emitted for it (none when \<open>n < 5\<close>), the
  one of index \<open>i\<close> being the average of the appended estimates \<open>i, ..., i + 4\<close>: the first
  emission comes with the fifth push, and every later push emits once.
\<close>

theorem emission_threshold:
  assumes "\<not> skipped env ts" and "gaze_buffer_c self sid = Some buf"
  shows "gaze_buffer_c (fst (snd (compute_eye_gaze_estimation X env sid ts ir il self))) sid =
           Some (deque_append buf (estimate_gaze_twoeyes X il ir (head_theta_phi X env)))
       \<and> (maxlen buf = 5 \<and> length (items buf) \<le> 5 \<longrightarrow>
            length (items (deque_append buf (estimate_gaze_twoeyes X il ir (head_theta_phi X env))))
              = min 5 (length (items buf) + 1))
       \<and> ((\<exists>g. PublishGaze g ts sid
                 \<in> set (snd (snd (compute_eye_gaze_estimation X env sid ts ir il self))))
            \<longleftrightarrow> length (items (deque_append buf
                    (estimate_gaze_twoeyes X il ir (head_theta_phi X env)))) = 5)
       \<and> (\<not> (length (items (deque_append buf
                  (estimate_gaze_twoeyes X il ir (head_theta_phi X env)))) = 5
               \<and> sendTransform env = None
               \<and> to_sec (now_line89 env - time_last self) = 0) \<longrightarrow>
            fst (compute_eye_gaze_estimation X env sid ts ir il self) =
              (if length (items (deque_append buf
                     (estimate_gaze_twoeyes X il ir (head_theta_phi X env)))) = 5
                  \<and> sendTransform env = None
               then Return (Some (np_average
                      (items (deque_append buf
                         (estimate_gaze_twoeyes X il ir (head_theta_phi X env))))
                      average_weights))
               else Return None))
       \<and> emissions sid (snd (spin X frames (init_state now))) =
           map (\<lambda>i. np_average (take 5 (drop i (pushes sid (snd (spin X frames (init_state now))))))
                  average_weights)
             [0 ..< length (pushes sid (snd (spin X frames (init_state now)))) - 4]"
proof -
  have "gaze_buffer_c (fst (snd (compute_eye_gaze_estimation X env sid ts ir il self))) sid =
           Some (deque_append buf (estimate_gaze_twoeyes X il ir (head_theta_phi X env)))"
    using compute_pushes(1) [OF assms, where X = X and ir = ir and il = il] by simp
  moreover have "maxlen buf = 5 \<and> length (items buf) \<le> 5 \<longrightarrow>
            length (items (deque_append buf (estimate_gaze_twoeyes X il ir (head_theta_phi X env))))
              = min 5 (length (items buf) + 1)"
    by (auto simp add: deque_append_def Let_def)
  moreover have "(\<exists>g. PublishGaze g ts sid
                 \<in> set (snd (snd (compute_eye_gaze_estimation X env sid ts ir il self))))
            \<longleftrightarrow> length (items (deque_append buf
                    (estimate_gaze_twoeyes X il ir (head_theta_phi X env)))) = 5"
    using compute_pushes(3) [OF assms, where X = X and ir = ir and il = il] by blast
  moreover have "fst (compute_eye_gaze_estimation X env sid ts ir il self) =
              (if length (items (deque_append buf
                     (estimate_gaze_twoeyes X il ir (head_theta_phi X env)))) = 5
                  \<and> sendTransform env = None
               then Return (Some (np_average
                      (items (deque_append buf
                         (estimate_gaze_twoeyes X il ir (head_theta_phi X env))))
                      average_weights))
               else Return None)"
    if "\<not> (length (items (deque_append buf
                  (estimate_gaze_twoeyes X il ir (head_theta_phi X env)))) = 5
               \<and> sendTransform env = None
               \<and> to_sec (now_line89 env - time_last self) = 0)"
    using compute_pushes(2) [OF assms, where X = X and ir = ir and il = il] that by auto
  moreover have "emissions sid (snd (spin X frames (init_state now))) =
           map (\<lambda>i. np_average (take 5 (drop i (pushes sid (snd (spin X frames (init_state now))))))
                  average_weights)
             [0 ..< length (pushes sid (snd (spin X frames (init_state now)))) - 4]"
    using spin_trace [of sid X frames "init_state now"]
    by (simp only: buffer_or_new_init sliding_new)
  ultimately show ?thesis by blast
qed

theorem emission_threshold_witness:
  "\<not> skipped (example_env 0 None) 0
   \<and> gaze_buffer_c (example_state [(1, 1), (2, 2), (3, 3), (4, 4)]) 1
       = Some \<lparr>maxlen = 5, items = [(1, 1), (2, 2), (3, 3), (4, 4)]\<rparr>
   \<and> to_sec (now_line89 (example_env 0 None)
        - time_last (example_state [(1, 1), (2, 2), (3, 3), (4, 4)])) = 1
   \<and> fst (compute_eye_gaze_estimation example_X (example_env 0 None) 1 0 20 10
          (example_state [(1, 1), (2, 2), (3, 3), (4, 4)])) = Return (Some (227 / 40, 387 / 40))
   \<and> pushes 1 (snd (spin example_X (map example_frame [0, 1, 2, 3, 4]) (init_state 0)))
       = [(0, 1), (1, 2), (2, 3), (3, 4), (4, 5)]
   \<and> emissions 1 (snd (spin example_X (map example_frame [0, 1, 2, 3, 4]) (init_state 0)))
       = [(107 / 40, 147 / 40)]"
proof -
  have h1: "\<not> skipped (example_env 0 None) 0"
    by (simp add: skipped_def example_env_def to_sec_def)
  have h2: "gaze_buffer_c (example_state [(1, 1), (2, 2), (3, 3), (4, 4)]) 1
       = Some \<lparr>maxlen = 5, items = [(1, 1), (2, 2), (3, 3), (4, 4)]\<rparr>"
    by (simp add: example_state_def)
  have h3: "to_sec (now_line89 (example_env 0 None)
        - time_last (example_state [(1, 1), (2, 2), (3, 3), (4, 4)])) = 1"
    by (simp add: example_env_def example_state_def to_sec_def)
  have p: "pushes 1 (snd (spin example_X (map example_frame [0, 1, 2, 3, 4]) (init_state 0)))
       = [(0, 1), (1, 2), (2, 3), (3, 4), (4, 5)]"
    by (simp add: example_defs example_frame_def init_state_def image_callback_def
          new_deque_def)
  note t = emission_threshold [OF h1 h2, where X = example_X and ir = 20 and il = 10
      and frames = "map example_frame [0, 1, 2, 3, 4]" and now = 0]
  have r: "fst (compute_eye_gaze_estimation example_X (example_env 0 None) 1 0 20 10
          (example_state [(1, 1), (2, 2), (3, 3), (4, 4)])) = Return (Some (227 / 40, 387 / 40))"
    using t [THEN conjunct2, THEN conjunct2, THEN conjunct2, THEN conjunct1] h3
    by (simp add: example_defs)
  have e: "emissions 1 (snd (spin example_X (map example_frame [0, 1, 2, 3, 4]) (init_state 0)))
       = [(107 / 40, 147 / 40)]"
    using t [THEN conjunct2, THEN conjunct2, THEN conjunct2, THEN conjunct2]
    unfolding p by (simp add: np_average5 weighted_average5_def)
  from h1 h2 h3 r p e show ?thesis by simp
qed

text \<open>
  The claim as stated fails when publishing raises: the buffer holds five samples after
  the insertion, and the call returns \<open>None\<close>.
\<close>

theorem emission_threshold_counterexample:
  "length (buffer_of (fst (snd (compute_eye_gaze_estimation example_X
       (example_env 0 (Some (ROSException ''publish() to a closed topic''))) 1 0 20 10
       (example_state [(1, 1), (2, 2), (3, 3), (4, 4)])))) 1) = 5
   \<and> fst (compute_eye_gaze_estimation example_X
       (example_env 0 (Some (ROSException ''publish() to a closed topic''))) 1 0 20 10
       (example_state [(1, 1), (2, 2), (3, 3), (4, 4)])) = Return None"
  by (simp add: example_defs buffer_of_def)

subsection \<open>A failure of publishing\<close>

text \<open>
  Claim C10. When the push fills the window and \<^verbatim>\<open>sendTransform\<close> raises the error of
  the closed topic, the call prints its farewell and returns \<open>None\<close>; the state it leaves
  has the raw estimate of this frame as the newest sample of the buffer; the loop of the
  callback goes on with the image it had, so nothing is drawn for the subject; and the
  next call that is not skipped hands to \<^verbatim>\<open>publish_gaze\<close> the average of a window whose
  fourth sample is that estimate.
\<close>

theorem publish_failure_keeps_sample:
  assumes "\<not> skipped (world sid) ts"
    and "gaze_buffer_c self sid = Some buf" and "maxlen buf = 5"
    and "length (items (deque_append buf (raw_estimate X (world sid) s))) = 5"
    and "sendTransform (world sid) = Some (ROSException ''publish() to a closed topic'')"
    and "\<not> skipped env_next ts_next"
  shows "fst (compute_eye_gaze_estimation X (world sid) sid ts (input_from_image X (right s))
            (input_from_image X (left s)) self) = Return None
       \<and> fst (snd (compute_eye_gaze_estimation X (world sid) sid ts (input_from_image X (right s))
            (input_from_image X (left s)) self)) =
           self\<lparr>gaze_buffer_c := (gaze_buffer_c self)(sid \<mapsto> (deque_append buf (raw_estimate X (world sid) s)))\<rparr>
       \<and> last (snd (snd (compute_eye_gaze_estimation X (world sid) sid ts (input_from_image X (right s))
            (input_from_image X (left s)) self))) = PrintSeeYa
       \<and> PublishGaze (np_average (items (deque_append buf (raw_estimate X (world sid) s))) average_weights) ts sid
           \<in> set (snd (snd (compute_eye_gaze_estimation X (world sid) sid ts (input_from_image X (right s))
            (input_from_image X (left s)) self)))
       \<and> last (items (deque_append buf (raw_estimate X (world sid) s))) = raw_estimate X (world sid) s
       \<and> image_callback_loop X world ts ((sid, s) # rest) self img =
           (case image_callback_loop X world ts rest
                   (fst (snd (compute_eye_gaze_estimation X (world sid) sid ts (input_from_image X (right s))
            (input_from_image X (left s)) self))) img of
              (out, self3, evs') \<Rightarrow>
                (out, self3, snd (snd (compute_eye_gaze_estimation X (world sid) sid ts (input_from_image X (right s))
            (input_from_image X (left s)) self)) @ evs'))
       \<and> PublishGaze
             (np_average (tl (items (deque_append buf (raw_estimate X (world sid) s))) @ [estimate_gaze_twoeyes X il_next ir_next (head_theta_phi X env_next)]) average_weights) ts_next sid
           \<in> set (snd (snd (compute_eye_gaze_estimation X env_next sid ts_next ir_next il_next
                 (fst (snd (compute_eye_gaze_estimation X (world sid) sid ts (input_from_image X (right s))
            (input_from_image X (left s)) self))))))
       \<and> (tl (items (deque_append buf (raw_estimate X (world sid) s))) @ [estimate_gaze_twoeyes X il_next ir_next (head_theta_phi X env_next)]) ! 3 = raw_estimate X (world sid) s"
proof -
  define R where "R = compute_eye_gaze_estimation X (world sid) sid ts (input_from_image X (right s))
            (input_from_image X (left s)) self"
  define buf' where "buf' = deque_append buf (raw_estimate X (world sid) s)"
  define est2 where "est2 = estimate_gaze_twoeyes X il_next ir_next (head_theta_phi X env_next)"
  note assms' = assms [folded buf'_def]

  have b: "buf' = deque_append buf (estimate_gaze_twoeyes X (input_from_image X (left s))
                     (input_from_image X (right s)) (head_theta_phi X (world sid)))"
    by (simp add: buf'_def raw_estimate_def)
  from compute_publish_closed [where env = "world sid", OF assms'(1,2) assms'(4) [unfolded b] assms'(5)]
  obtain evs where
    r: "R = (Return None, self\<lparr>gaze_buffer_c := (gaze_buffer_c self)(sid \<mapsto> buf')\<rparr>,
             evs @ [PublishGaze (np_average (items buf') average_weights) ts sid, PrintSeeYa])"
    unfolding R_def b by blast
  have m: "maxlen buf' = 5" using assms'(3) by (simp add: buf'_def deque_append_def Let_def)
  have l: "last (items buf') = raw_estimate X (world sid) s"
    unfolding buf'_def using assms'(3) by (simp add: last_deque_append)
  have loop: "image_callback_loop X world ts ((sid, s) # rest) self img =
           (case image_callback_loop X world ts rest (fst (snd R)) img of
              (out, self3, evs') \<Rightarrow> (out, self3, snd (snd R) @ evs'))"
  proof -
    have c: "compute_eye_gaze_estimation X (world sid) sid ts (input_from_image X (right s))
          (input_from_image X (left s)) (ensure_buffer self sid) =
          (Return None, self\<lparr>gaze_buffer_c := (gaze_buffer_c self)(sid \<mapsto> buf')\<rparr>,
             evs @ [PublishGaze (np_average (items buf') average_weights) ts sid, PrintSeeYa])"
      using r by (simp add: R_def ensure_buffer_present [OF assms'(2)])
    show ?thesis
      unfolding loop_step [where world = world, OF c] by (simp add: r add_gaze_img_def)
  qed
  have g: "gaze_buffer_c (fst (snd R)) sid = Some buf'" by (simp add: r)
  have f: "items (deque_append buf' est2) = tl (items buf') @ [est2]"
    using deque_append_full [OF m assms'(4)] .
  have next_call: "PublishGaze (np_average (tl (items buf') @ [est2]) average_weights) ts_next sid
           \<in> set (snd (snd (compute_eye_gaze_estimation X env_next sid ts_next ir_next il_next (fst (snd R)))))"
    using compute_pushes(3) [OF assms'(6) g, where X = X and ir = ir_next and il = il_next
        and g = "np_average (tl (items buf') @ [est2]) average_weights" and t = ts_next and k = sid]
      f assms'(4)
    by (simp add: est2_def)
  from assms'(4) obtain e0 e1 e2 e3 e4 where e: "items buf' = [e0, e1, e2, e3, e4]"
    by (rule length5E)
  have "(tl (items buf') @ [est2]) ! 3 = last (items buf')" by (simp add: e)
  with l have w: "(tl (items buf') @ [est2]) ! 3 = raw_estimate X (world sid) s" by simp
  from r l loop next_call w show ?thesis
    unfolding R_def [symmetric] buf'_def [symmetric] est2_def [symmetric] by simp
qed

theorem publish_failure_keeps_sample_witness:
  "\<not> skipped (example_env 0 (Some (ROSException ''publish() to a closed topic''))) 0
   \<and> gaze_buffer_c (example_state [(1, 1), (2, 2), (3, 3), (4, 4)]) 1
       = Some \<lparr>maxlen = 5, items = [(1, 1), (2, 2), (3, 3), (4, 4)]\<rparr>
   \<and> maxlen \<lparr>maxlen = 5, items = [(1, 1), (2, 2), (3, 3), (4, 4) :: gaze]\<rparr> = 5
   \<and> length (items (deque_append \<lparr>maxlen = 5, items = [(1, 1), (2, 2), (3, 3), (4, 4)]\<rparr>
         (raw_estimate example_X (example_env 0 (Some (ROSException ''publish() to a closed topic'')))
            example_subject))) = 5
   \<and> sendTransform (example_env 0 (Some (ROSException ''publish() to a closed topic'')))
       = Some (ROSException ''publish() to a closed topic'')
   \<and> \<not> skipped (example_env 0 None) 1
   \<and> fst (compute_eye_gaze_estimation example_X
         (example_env 0 (Some (ROSException ''publish() to a closed topic''))) 1 0 20 10
         (example_state [(1, 1), (2, 2), (3, 3), (4, 4)])) = Return None
   \<and> buffer_of (fst (snd (compute_eye_gaze_estimation example_X
         (example_env 0 (Some (ROSException ''publish() to a closed topic''))) 1 0 20 10
         (example_state [(1, 1), (2, 2), (3, 3), (4, 4)])))) 1
       = [(1, 1), (2, 2), (3, 3), (4, 4), (10, 20)]"
proof -
  have h1: "\<not> skipped (example_env 0 (Some (ROSException ''publish() to a closed topic''))) 0"
    by (simp add: skipped_def example_env_def to_sec_def)
  have h2: "gaze_buffer_c (example_state [(1, 1), (2, 2), (3, 3), (4, 4)]) 1
       = Some \<lparr>maxlen = 5, items = [(1, 1), (2, 2), (3, 3), (4, 4)]\<rparr>"
    by (simp add: example_state_def)
  have h3: "maxlen \<lparr>maxlen = 5, items = [(1, 1), (2, 2), (3, 3), (4, 4) :: gaze]\<rparr> = 5"
    by simp
  have h4: "length (items (deque_append \<lparr>maxlen = 5, items = [(1, 1), (2, 2), (3, 3), (4, 4)]\<rparr>
         (raw_estimate example_X (example_env 0 (Some (ROSException ''publish() to a closed topic'')))
            example_subject))) = 5"
    by (simp add: deque_append_def)
  have h5: "sendTransform (example_env 0 (Some (ROSException ''publish() to a closed topic'')))
       = Some (ROSException ''publish() to a closed topic'')"
    by (simp add: example_env_def)
  have h6: "\<not> skipped (example_env 0 None) 1"
    by (simp add: skipped_def example_env_def to_sec_def)
  from publish_failure_keeps_sample [where
      world = "\<lambda>k. example_env 0 (Some (ROSException ''publish() to a closed topic''))"
      and sid = 1 and ts = 0 and s = example_subject and X = example_X
      and self = "example_state [(1, 1), (2, 2), (3, 3), (4, 4)]"
      and env_next = "example_env 0 None" and ts_next = 1, OF h1 h2 h3 h4 h5 h6]
    h1 h2 h4 h5 h6
  show ?thesis
    by (simp add: buffer_of_def example_subject_def example_X_def raw_estimate_def
          deque_append_def)
qed

subsection \<open>The bound of the buffer\<close>

text \<open>
  Claim C5. In every state that the node reaches from its initial state, through any
  messages and any answers of the outside world, every buffer has the capacity five and
  at most five samples; a further push keeps the length within five, and on a full
  buffer it drops the oldest sample and keeps the other four in their order, followed
  by the new one. That push is what a call which is not skipped does to the buffer.
\<close>

theorem buffer_never_exceeds_window:
  assumes "gaze_buffer_c (fst (spin X frames (init_state now))) sid = Some buf"
  shows "maxlen buf = 5 \<and> length (items buf) \<le> 5
       \<and> (\<forall>e. length (items (deque_append buf e)) \<le> 5)
       \<and> (\<forall>e. items (deque_append buf e) =
                (if length (items buf) = 5 then tl (items buf) else items buf) @ [e])
       \<and> (\<not> skipped env ts \<longrightarrow>
            buffer_of (fst (snd (compute_eye_gaze_estimation X env sid ts ir il
                (fst (spin X frames (init_state now)))))) sid =
              (if length (items buf) = 5 then tl (items buf) else items buf)
                @ [estimate_gaze_twoeyes X il ir (head_theta_phi X env)])"
proof -
  have "buffers_bounded (fst (spin X frames (init_state now)))"
    by (rule spin_bounded [OF init_state_bounded])
  with assms have b: "maxlen buf = 5" "length (items buf) \<le> 5"
    by (auto simp add: buffers_bounded_def)
  have "buffer_of (fst (snd (compute_eye_gaze_estimation X env sid ts ir il
                (fst (spin X frames (init_state now)))))) sid =
              (if length (items buf) = 5 then tl (items buf) else items buf)
                @ [estimate_gaze_twoeyes X il ir (head_theta_phi X env)]"
    if "\<not> skipped env ts"
    using compute_pushes(1) [OF that assms, where X = X and ir = ir and il = il]
      deque_append_items [OF b]
    by (simp add: buffer_of_def)
  with deque_append_bounded [OF b] deque_append_items [OF b] b show ?thesis by blast
qed

theorem buffer_never_exceeds_window_witness:
  "gaze_buffer_c (fst (spin example_X (map example_frame [0, 1, 2, 3, 4]) (init_state 0))) 1
     = Some \<lparr>maxlen = 5, items = [(0, 1), (1, 2), (2, 3), (3, 4), (4, 5)]\<rparr>
   \<and> \<not> skipped (example_env 0 None) 0
   \<and> length (items \<lparr>maxlen = 5, items = [(0, 1), (1, 2), (2, 3), (3, 4), (4, 5) :: gaze]\<rparr>) \<le> 5
   \<and> buffer_of (fst (snd (compute_eye_gaze_estimation example_X (example_env 0 None) 1 0 40 30
        (fst (spin example_X (map example_frame [0, 1, 2, 3, 4]) (init_state 0)))))) 1
       = [(1, 2), (2, 3), (3, 4), (4, 5), (30, 40)]"
proof -
  have h: "gaze_buffer_c (fst (spin example_X (map example_frame [0, 1, 2, 3, 4])
             (init_state 0))) 1
       = Some \<lparr>maxlen = 5, items = [(0, 1), (1, 2), (2, 3), (3, 4), (4, 5)]\<rparr>"
    by (simp add: example_defs example_frame_def init_state_def image_callback_def
          new_deque_def)
  have s: "\<not> skipped (example_env 0 None) 0"
    by (simp add: skipped_def example_env_def to_sec_def)
  from buffer_never_exceeds_window [OF h, where env = "example_env 0 None" and ts = 0
      and ir = 40 and il = 30] h s
  show ?thesis
    by (simp add: example_X_def head_theta_phi_def example_env_def)
qed

lemma compute_estimator_call:
  "\<not> skipped env ts \<Longrightarrow>
   EstimateGazeTwoEyes il ir (head_theta_phi X env)
     \<in> set (snd (snd (compute_eye_gaze_estimation X env sid ts ir il self)))"
  by (auto simp add: skipped_def compute_eye_gaze_estimation_def excepts_def Let_def
        head_theta_phi_def
        split: sum.splits option.splits prod.splits exn.splits if_splits)

subsection \<open>The call of the estimator\<close>

text \<open>
  Claim C4, amended. A call for a subject that is not skipped calls the estimator with
  the left input first, the right input second, and the array \<open>[theta_head, phi_head]\<close>
  third, and the value it obtains is the newest sample of the buffer after the call. In
  the callback these inputs are made from the left crop and from the right crop of the
  subject: so it is for the subject that the loop takes first, and for every subject of
  the frame when the callback returns.
\<close>

theorem estimator_arguments:
  assumes "(sid, s) \<in> set (subjects msg)" and "\<not> skipped (world sid) (stamp msg)"
  shows "EstimateGazeTwoEyes il ir (head_theta_phi X (world sid))
           \<in> set (snd (snd (compute_eye_gaze_estimation X (world sid) sid (stamp msg) ir il self)))
       \<and> (\<forall>trans_head rot_head phi_head theta_head.
            lookupTransform (world sid) = Inr (trans_head, rot_head)
            \<and> get_phi_theta_from_euler X (limit_yaw X rot_head) = (phi_head, theta_head)
            \<longrightarrow> head_theta_phi X (world sid) = (theta_head, phi_head))
       \<and> (\<forall>buf. gaze_buffer_c self sid = Some buf \<and> 0 < maxlen buf \<longrightarrow>
            last (buffer_of (fst (snd (compute_eye_gaze_estimation X (world sid) sid (stamp msg)
                    ir il self))) sid) =
              estimate_gaze_twoeyes X il ir (head_theta_phi X (world sid)))
       \<and> EstimateGazeTwoEyes (input_from_image X (left s)) (input_from_image X (right s))
             (head_theta_phi X (world sid))
           \<in> set (snd (snd (image_callback_loop X world (stamp msg) ((sid, s) # rest) self img)))
       \<and> (fst (image_callback X world msg self) = Return () \<longrightarrow>
            EstimateGazeTwoEyes (input_from_image X (left s)) (input_from_image X (right s))
                (head_theta_phi X (world sid))
              \<in> set (snd (snd (image_callback X world msg self))))
       \<and> (fst (image_callback X world msg self) = Return ()
            \<and> distinct (map fst (subjects msg)) \<and> buffers_bounded self \<longrightarrow>
            last (buffer_of (fst (snd (image_callback X world msg self))) sid) =
              estimate_gaze_twoeyes X (input_from_image X (left s)) (input_from_image X (right s))
                (head_theta_phi X (world sid)))"
proof -
  have a: "EstimateGazeTwoEyes il ir (head_theta_phi X (world sid))
           \<in> set (snd (snd (compute_eye_gaze_estimation X (world sid) sid (stamp msg) ir il self)))"
    by (rule compute_estimator_call [OF assms(2)])
  have b: "\<forall>trans_head rot_head phi_head theta_head.
            lookupTransform (world sid) = Inr (trans_head, rot_head)
            \<and> get_phi_theta_from_euler X (limit_yaw X rot_head) = (phi_head, theta_head)
            \<longrightarrow> head_theta_phi X (world sid) = (theta_head, phi_head)"
    by (simp add: head_theta_phi_def)
  have c: "\<forall>buf. gaze_buffer_c self sid = Some buf \<and> 0 < maxlen buf \<longrightarrow>
            last (buffer_of (fst (snd (compute_eye_gaze_estimation X (world sid) sid (stamp msg)
                    ir il self))) sid) =
              estimate_gaze_twoeyes X il ir (head_theta_phi X (world sid))"
  proof (intro allI impI)
    fix buf
    assume h: "gaze_buffer_c self sid = Some buf \<and> 0 < maxlen buf"
    then have h1: "gaze_buffer_c self sid = Some buf" and h2: "0 < maxlen buf" by simp_all
    show "last (buffer_of (fst (snd (compute_eye_gaze_estimation X (world sid) sid (stamp msg)
                    ir il self))) sid) =
              estimate_gaze_twoeyes X il ir (head_theta_phi X (world sid))"
      using compute_pushes(1) [OF assms(2) h1, where X = X and ir = ir and il = il]
      by (simp add: buffer_of_def last_deque_append [OF h2])
  qed
  have d: "EstimateGazeTwoEyes (input_from_image X (left s)) (input_from_image X (right s))
             (head_theta_phi X (world sid))
           \<in> set (snd (snd (image_callback_loop X world (stamp msg) ((sid, s) # rest) self img)))"
    by (rule loop_estimator_head [where world = world, OF assms(2)])
  have e: "EstimateGazeTwoEyes (input_from_image X (left s)) (input_from_image X (right s))
                (head_theta_phi X (world sid))
              \<in> set (snd (snd (image_callback X world msg self)))"
    if r: "fst (image_callback X world msg self) = Return ()"
  proof -
    from image_callback_returned [OF r] obtain i where
      "fst (image_callback_loop X world (stamp msg) (subjects msg) self None) = Return i" ..
    from loop_estimator_returned [where world = world, OF this assms]
    show ?thesis by (simp add: image_callback_events)
  qed
  have f: "last (buffer_of (fst (snd (image_callback X world msg self))) sid) =
              estimate_gaze_twoeyes X (input_from_image X (left s)) (input_from_image X (right s))
                (head_theta_phi X (world sid))"
    if r: "fst (image_callback X world msg self) = Return ()"
      and dist: "distinct (map fst (subjects msg))" and bb: "buffers_bounded self"
  proof -
    from image_callback_returned [OF r] obtain i where
      "fst (image_callback_loop X world (stamp msg) (subjects msg) self None) = Return i" ..
    from loop_pushes_member [where world = world, OF dist assms(1) this] assms(2)
    have p: "pushes sid (snd (snd (image_callback X world msg self))) =
        [raw_estimate X (world sid) s]"
      by (simp add: image_callback_pushes)
    have m: "0 < maxlen (buffer_or_new self sid)"
      using bb by (auto simp add: buffers_bounded_def buffer_or_new_def new_deque_def
          split: option.splits)
    from image_callback_trace [of sid X world msg self]
    have "buffer_or_new (fst (snd (image_callback X world msg self))) sid =
        deque_append (buffer_or_new self sid) (raw_estimate X (world sid) s)"
      by (simp add: p)
    then show ?thesis
      by (simp add: buffer_of_buffer_or_new last_deque_append [OF m] raw_estimate_def)
  qed
  from a b c d e f show ?thesis by blast
qed

theorem estimator_arguments_witness:
  "(1, example_subject) \<in> set (subjects (example_msg 0))
   \<and> \<not> skipped (example_env 0 None) (stamp (example_msg 0))
   \<and> lookupTransform (example_env 0 None) = Inr ((0, 0, 0), (0, 0, 0, 1))
   \<and> get_phi_theta_from_euler example_X (limit_yaw example_X (0, 0, 0, 1)) = (1, 2)
   \<and> fst (image_callback example_X (\<lambda>k. example_env 0 None) (example_msg 0) (init_state 0))
       = Return ()
   \<and> distinct (map fst (subjects (example_msg 0)))
   \<and> buffers_bounded (init_state 0)
   \<and> EstimateGazeTwoEyes 10 20 (2, 1)
       \<in> set (snd (snd (image_callback example_X (\<lambda>k. example_env 0 None) (example_msg 0)
                 (init_state 0))))
   \<and> last (buffer_of (fst (snd (image_callback example_X (\<lambda>k. example_env 0 None)
               (example_msg 0) (init_state 0)))) 1) = (10, 20)"
proof -
  have h1: "(1, example_subject) \<in> set (subjects (example_msg 0))"
    by (simp add: example_msg_def)
  have h2: "\<not> skipped (example_env 0 None) (stamp (example_msg 0))"
    by (simp add: skipped_def example_env_def example_msg_def to_sec_def)
  have h3: "lookupTransform (example_env 0 None) = Inr ((0, 0, 0), (0, 0, 0, 1))"
    "get_phi_theta_from_euler example_X (limit_yaw example_X (0, 0, 0, 1)) = (1, 2)"
    "distinct (map fst (subjects (example_msg 0)))"
    "buffers_bounded (init_state 0)"
    by (simp_all add: example_env_def example_X_def example_msg_def buffers_bounded_def
          init_state_def)
  have h4: "fst (image_callback example_X (\<lambda>k. example_env 0 None) (example_msg 0) (init_state 0))
       = Return ()"
    by (simp add: example_defs example_msg_def example_subject_def init_state_def
          image_callback_def new_deque_def)
  from estimator_arguments [where world = "\<lambda>k. example_env 0 None" and sid = 1
      and s = example_subject and msg = "example_msg 0" and X = example_X
      and self = "init_state 0", OF h1 h2] h1 h2 h3 h4
  show ?thesis
    by (simp add: example_subject_def example_X_def head_theta_phi_def example_env_def)
qed

text \<open>
  The claim as stated puts the right crop first. For a subject with the left crop 10 and
  the right crop 20 there is no call with the arguments in that order: the only call has
  the left crop first.
\<close>

theorem estimator_arguments_counterexample:
  "\<not> skipped (example_env 0 None) (stamp (example_msg 0))
   \<and> subjects (example_msg 0) = [(1, \<lparr>left = 10, right = 20\<rparr>)]
   \<and> EstimateGazeTwoEyes (input_from_image example_X 20) (input_from_image example_X 10) (2, 1)
       \<notin> set (snd (snd (image_callback example_X (\<lambda>k. example_env 0 None) (example_msg 0)
                 (init_state 0))))
   \<and> snd (snd (image_callback example_X (\<lambda>k. example_env 0 None) (example_msg 0) (init_state 0)))
       = [LookupTransform 1 0, PrintEulerAngles (0, 0, 0),
          EstimateGazeTwoEyes (input_from_image example_X 10) (input_from_image example_X 20) (2, 1),
          BufferAppend 1 (10, 20)]"
  by (simp add: example_defs skipped_def example_msg_def example_subject_def init_state_def
        image_callback_def new_deque_def)

subsection \<open>The sliding window\<close>

text \<open>
  Claim C6. Let the estimates appended to the buffer of one subject over a run from the
  initial state be the six values \<open>e0, ..., e5\<close>, in this order. Then exactly two
  smoothed estimates are handed to \<^verbatim>\<open>publish_gaze\<close> for the subject: the weighted average
  of \<open>e0, ..., e4\<close> and then that of \<open>e1, ..., e5\<close>; the buffer ends with \<open>e1, ..., e5\<close>;
  and any other run that appends the same six values emits the same two estimates.
\<close>

theorem sliding_window_six:
  assumes "pushes sid (snd (spin X frames (init_state now))) = [e0, e1, e2, e3, e4, e5]"
    and "pushes sid' (snd (spin X' frames' (init_state now'))) =
           pushes sid (snd (spin X frames (init_state now)))"
  shows "emissions sid (snd (spin X frames (init_state now))) =
           [weighted_average5 e0 e1 e2 e3 e4, weighted_average5 e1 e2 e3 e4 e5]
       \<and> buffer_of (fst (spin X frames (init_state now))) sid = [e1, e2, e3, e4, e5]
       \<and> emissions sid' (snd (spin X' frames' (init_state now'))) =
           emissions sid (snd (spin X frames (init_state now)))"
proof -
  note s = spin_trace [of sid X frames "init_state now",
      unfolded buffer_or_new_init assms(1) sliding_six]
  note s' = spin_trace [of sid' X' frames' "init_state now'",
      unfolded buffer_or_new_init assms(2) assms(1) sliding_six]
  have "buffer_of (fst (spin X frames (init_state now))) sid = [e1, e2, e3, e4, e5]"
    unfolding buffer_of_buffer_or_new conjunct2 [OF s] by (rule foldl_six)
  with conjunct1 [OF s] conjunct1 [OF s'] show ?thesis by simp
qed

theorem sliding_window_six_witness:
  "pushes 1 (snd (spin example_X (map example_frame [0, 1, 2, 3, 4, 5]) (init_state 0)))
       = [(0, 1), (1, 2), (2, 3), (3, 4), (4, 5), (5, 6)]
   \<and> pushes 1 (snd (spin example_X
         (example_frame 0 # example_stale_frame # map example_frame [1, 2, 3, 4, 5]) (init_state 0)))
       = pushes 1 (snd (spin example_X (map example_frame [0, 1, 2, 3, 4, 5]) (init_state 0)))
   \<and> emissions 1 (snd (spin example_X (map example_frame [0, 1, 2, 3, 4, 5]) (init_state 0)))
       = [(107 / 40, 147 / 40), (147 / 40, 187 / 40)]
   \<and> emissions 1 (snd (spin example_X
         (example_frame 0 # example_stale_frame # map example_frame [1, 2, 3, 4, 5]) (init_state 0)))
       = [(107 / 40, 147 / 40), (147 / 40, 187 / 40)]"
proof -
  have p: "pushes 1 (snd (spin example_X (map example_frame [0, 1, 2, 3, 4, 5]) (init_state 0)))
       = [(0, 1), (1, 2), (2, 3), (3, 4), (4, 5), (5, 6)]"
    by (simp add: example_defs example_frame_def init_state_def image_callback_def
          new_deque_def)
  have p': "pushes 1 (snd (spin example_X
         (example_frame 0 # example_stale_frame # map example_frame [1, 2, 3, 4, 5]) (init_state 0)))
       = [(0, 1), (1, 2), (2, 3), (3, 4), (4, 5), (5, 6)]"
    by (simp add: example_defs example_frame_def example_stale_frame_def example_subject_def
          init_state_def image_callback_def new_deque_def)
  from sliding_window_six [OF p p' [folded p]] p p'
  show ?thesis by (simp add: weighted_average5_def)
qed

lemmas example_frame_defs =
  example_defs example_msg2_def example_subject_def example_state_at_def example_four_def
  example_world_fresh_def example_world_first_stale_def image_callback_def new_deque_def
  skipped_def

subsection \<open>The registry of buffers\<close>

text \<open>
  Claim C8. The claim has a buffer created for an id on the first frame in which the id
  appears. The code does so only when the loop of the callback reaches the id. Here the
  first subject holds four samples, the last emission was at one second and the clock
  still shows one second: the call for the first subject appends, publishes and leaves
  with the \<^verbatim>\<open>ZeroDivisionError\<close> of line 89, the callback ends there, and the second
  subject, which is in the frame with a fresh pose and had no buffer, has none
  afterwards.
\<close>

theorem registry_entry_missing_after_abort:
  "subjects example_msg2 = [(1, \<lparr>left = 10, right = 20\<rparr>), (2, \<lparr>left = 30, right = 40\<rparr>)]
   \<and> \<not> skipped (example_world_fresh 2) (stamp example_msg2)
   \<and> gaze_buffer_c (example_state_at 1000000000 [1 \<mapsto> example_four]) 2 = None
   \<and> fst (image_callback example_X example_world_fresh example_msg2
            (example_state_at 1000000000 [1 \<mapsto> example_four])) = Raise ZeroDivisionError
   \<and> gaze_buffer_c (fst (snd (image_callback example_X example_world_fresh example_msg2
            (example_state_at 1000000000 [1 \<mapsto> example_four])))) 2 = None
   \<and> snd (snd (image_callback example_X example_world_fresh example_msg2
            (example_state_at 1000000000 [1 \<mapsto> example_four]))) =
       [LookupTransform 1 1000000000, PrintEulerAngles (0, 0, 0),
        EstimateGazeTwoEyes 10 20 (2, 1), BufferAppend 1 (10, 20),
        PublishGaze (227 / 40, 387 / 40) 1000000000 1]"
  by (simp add: example_frame_defs)

subsection \<open>The isolation of the subjects\<close>

text \<open>
  Claim C9. The claim has the processing of one subject change neither the buffer of
  another nor the moment at which the other emits. In the code a call writes no entry
  but that of its own subject, but a call that leaves with the \<^verbatim>\<open>ZeroDivisionError\<close> of
  line 89 ends the callback. Here both subjects hold four samples, the last emission
  was at one second and the clock still shows one second. When the pose of the first
  subject is stale, the second subject is pushed and emits in this frame. When the pose
  of the first subject is fresh, its call leaves with the exception, and the second
  subject is neither pushed nor emits: its buffer keeps four samples.
\<close>

theorem isolation_broken_by_abort:
  "example_world_first_stale 2 = example_world_fresh 2
   \<and> skipped (example_world_first_stale 1) (stamp example_msg2)
   \<and> \<not> skipped (example_world_fresh 1) (stamp example_msg2)
   \<and> emissions 2 (snd (snd (image_callback example_X example_world_first_stale example_msg2
        (example_state_at 1000000000 [1 \<mapsto> example_four, 2 \<mapsto> example_four]))))
       = [(547 / 40, 707 / 40)]
   \<and> buffer_of (fst (snd (image_callback example_X example_world_first_stale example_msg2
        (example_state_at 1000000000 [1 \<mapsto> example_four, 2 \<mapsto> example_four])))) 2
       = [(1, 1), (2, 2), (3, 3), (4, 4), (30, 40)]
   \<and> fst (image_callback example_X example_world_fresh example_msg2
        (example_state_at 1000000000 [1 \<mapsto> example_four, 2 \<mapsto> example_four]))
       = Raise ZeroDivisionError
   \<and> emissions 2 (snd (snd (image_callback example_X example_world_fresh example_msg2
        (example_state_at 1000000000 [1 \<mapsto> example_four, 2 \<mapsto> example_four])))) = []
   \<and> buffer_of (fst (snd (image_callback example_X example_world_fresh example_msg2
        (example_state_at 1000000000 [1 \<mapsto> example_four, 2 \<mapsto> example_four])))) 2
       = [(1, 1), (2, 2), (3, 3), (4, 4)]"
  by (simp add: example_frame_defs buffer_of_def)

end
